theory Spec2Isabelle
  imports Complex_Main
begin

section \<open>AISubBrawl server: shallow embedding of \<open>server_world_db.py\<close>\<close>

text \<open>
  Python floats are modelled as \<^typ>\<open>real\<close>, Python ints as \<^typ>\<open>int\<close>, nullable
  columns and attributes that the code tests with \<open>is None\<close> as \<open>option\<close>.
  Wall-clock reads (\<open>time.time()\<close>), fresh ids (\<open>uuid.uuid4()\<close>) and random draws
  (each a value of \<open>random.random()\<close>, in \<open>[0, 1)\<close>) are explicit arguments.
  Columns that no modelled function reads or writes (\<open>updated_at\<close>,
  \<open>last_score_update\<close>) are left out of the records. The \<open>fuel\<close> columns are plain
  numbers: every row is created with its column default or an explicit value, so the
  guards for a missing \<open>fuel\<close> (\<open>getattr(s, "fuel", None) is None\<close>) never fire and are
  not modelled.
  ORM rows are records; a handler that mutates a row returns the updated record.
  An HTTP error response is \<open>Inl (status, message)\<close>.
\<close>

subsection \<open>Helpers\<close>

definition clamp :: "real \<Rightarrow> real \<Rightarrow> real \<Rightarrow> real" where
  "clamp v lo hi = max lo (min hi v)"

definition distance :: "real \<Rightarrow> real \<Rightarrow> real \<Rightarrow> real \<Rightarrow> real" where
  "distance x1 y1 x2 y2 = sqrt ((x2 - x1) * (x2 - x1) + (y2 - y1) * (y2 - y1))"

definition distance3d :: "real \<Rightarrow> real \<Rightarrow> real \<Rightarrow> real \<Rightarrow> real \<Rightarrow> real \<Rightarrow> real" where
  "distance3d ax ay az bx by bz =
     (let dx = ax - bx; dy = ay - by; dz = az - bz
      in sqrt (dx * dx + dy * dy + dz * dz))"

definition radians :: "real \<Rightarrow> real" where
  "radians d = d * pi / 180"

text \<open>Python's float \<open>a % b\<close> for positive \<open>b\<close>: the result lies in \<open>[0, b)\<close>.\<close>

definition py_fmod :: "real \<Rightarrow> real \<Rightarrow> real" where
  "py_fmod a b = a - b * of_int \<lfloor>a / b\<rfloor>"

text \<open>Python's \<open>int(x)\<close> on a float truncates towards zero.\<close>

definition py_int :: "real \<Rightarrow> int" where
  "py_int x = (if 0 \<le> x then \<lfloor>x\<rfloor> else \<lceil>x\<rceil>)"

type_synonym api_error = "nat \<times> string"

subsection \<open>Models\<close>

datatype control_mode = Wire | Free

record SubModel =
  s_id :: string
  s_owner_id :: int
  s_x :: real
  s_y :: real
  s_depth :: real
  s_heading :: real
  s_pitch :: real
  s_rudder_angle :: "real option"
  s_rudder_cmd :: "real option"
  s_planes :: real
  s_throttle :: real
  s_target_depth :: "real option"
  s_target_heading :: "real option"
  s_speed :: real
  s_battery :: real
  s_fuel :: real
  s_refuel_timer :: real
  s_refuel_active :: bool
  s_refuel_fueler_id :: "string option"
  s_is_snorkeling :: bool
  s_blow_active :: bool
  s_blow_charge :: real
  s_blow_end :: real
  s_health :: real
  s_passive_dir :: real
  s_created_at :: real
  s_last_report :: real
  s_scanner_noise_until :: real
  s_torpedo_ammo :: int
  s_score :: real
  s_kills :: int

text \<open>
  The torpedo row, followed by the attributes the tick loop attaches to the in-memory
  object (\<open>_battery_dead\<close>, \<open>_expired\<close>, \<open>_check_prox\<close>, \<open>_min_safe_distance\<close>,
  \<open>_delete\<close>); \<open>getattr(t, name, default)\<close> reads them, so an absent flag is
  \<open>False\<close> and an absent \<open>_min_safe_distance\<close> is \<open>None\<close>.
\<close>

record TorpedoModel =
  t_id :: string
  t_owner_id :: int
  t_parent_sub :: string
  t_x :: real
  t_y :: real
  t_depth :: real
  t_target_depth :: "real option"
  t_heading :: real
  t_target_heading :: "real option"
  t_speed :: real
  t_target_speed :: real
  t_created_at :: real
  t_control_mode :: control_mode
  t_wire_length :: real
  t_passive_sonar_active :: bool
  t_passive_sonar_bearing :: real
  t_last_sonar_contact :: real
  t_active_sonar_enabled :: bool
  t_last_active_ping :: real
  t_battery :: "real option"
  t_battery_dead :: bool
  t_expired :: bool
  t_check_prox :: bool
  t_min_safe_distance :: "real option"
  t_delete :: bool

record FuelerModel =
  f_id :: string
  f_owner_id :: "int option"
  f_x :: real
  f_y :: real
  f_depth :: real
  f_fuel :: real
  f_max_fuel :: real
  f_spawned_at :: real
  f_empty_since :: "real option"

record User =
  u_id :: int
  u_last_death_ts :: "real option"
  u_prev_death_ts :: "real option"

subsection \<open>Published views and events\<close>

record sub_pub =
  sp_id :: string
  sp_x :: real
  sp_y :: real
  sp_depth :: real
  sp_heading :: real
  sp_pitch :: real
  sp_rudder_angle :: "real option"
  sp_rudder_cmd :: "real option"
  sp_planes :: real
  sp_speed :: real
  sp_battery :: real
  sp_fuel :: real
  sp_is_snorkeling :: bool
  sp_blow_active :: bool
  sp_blow_charge :: real
  sp_health :: real
  sp_target_depth :: "real option"
  sp_target_heading :: "real option"
  sp_throttle :: real
  sp_torpedo_ammo :: int
  sp_score :: real
  sp_kills :: int
  sp_refuel_active :: bool
  sp_refuel_timer :: real

record torp_pub =
  tp_id :: string
  tp_x :: real
  tp_y :: real
  tp_depth :: real
  tp_heading :: real
  tp_speed :: real
  tp_mode :: control_mode
  tp_range :: real
  tp_passive_sonar_active :: bool
  tp_passive_sonar_bearing :: real
  tp_last_sonar_contact :: real
  tp_active_sonar_enabled :: bool
  tp_target_heading :: "real option"
  tp_target_depth :: "real option"
  tp_battery :: "real option"

record fueler_pub =
  fp_id :: string
  fp_x :: real
  fp_y :: real
  fp_depth :: real
  fp_fuel :: real
  fp_max_fuel :: real

definition sub_pub_of :: "SubModel \<Rightarrow> sub_pub" where
  "sub_pub_of s =
     \<lparr> sp_id = s_id s, sp_x = s_x s, sp_y = s_y s, sp_depth = s_depth s,
       sp_heading = s_heading s, sp_pitch = s_pitch s,
       sp_rudder_angle = s_rudder_angle s, sp_rudder_cmd = s_rudder_cmd s,
       sp_planes = s_planes s, sp_speed = s_speed s, sp_battery = s_battery s,
       sp_fuel = s_fuel s, sp_is_snorkeling = s_is_snorkeling s,
       sp_blow_active = s_blow_active s, sp_blow_charge = s_blow_charge s,
       sp_health = s_health s, sp_target_depth = s_target_depth s,
       sp_target_heading = s_target_heading s, sp_throttle = s_throttle s,
       sp_torpedo_ammo = s_torpedo_ammo s, sp_score = s_score s, sp_kills = s_kills s,
       sp_refuel_active = s_refuel_active s, sp_refuel_timer = s_refuel_timer s \<rparr>"

definition torp_pub_of :: "TorpedoModel \<Rightarrow> torp_pub" where
  "torp_pub_of t =
     \<lparr> tp_id = t_id t, tp_x = t_x t, tp_y = t_y t, tp_depth = t_depth t,
       tp_heading = t_heading t, tp_speed = t_speed t, tp_mode = t_control_mode t,
       tp_range = t_wire_length t,
       tp_passive_sonar_active = t_passive_sonar_active t,
       tp_passive_sonar_bearing = t_passive_sonar_bearing t,
       tp_last_sonar_contact = t_last_sonar_contact t,
       tp_active_sonar_enabled = t_active_sonar_enabled t,
       tp_target_heading = t_target_heading t, tp_target_depth = t_target_depth t,
       tp_battery = t_battery t \<rparr>"

text \<open>
  \<open>float(getattr(f, "fuel", 0.0) or 0.0)\<close>: the fuel columns are never null (the row is
  created with both set), and \<open>v or 0.0\<close> is \<open>v\<close> for every float \<open>v\<close>.
\<close>

definition fueler_pub_of :: "FuelerModel \<Rightarrow> fueler_pub" where
  "fueler_pub_of f =
     \<lparr> fp_id = f_id f, fp_x = f_x f, fp_y = f_y f, fp_depth = f_depth f,
       fp_fuel = f_fuel f, fp_max_fuel = f_max_fuel f \<rparr>"

record snapshot_obj =
  snap_subs :: "sub_pub list"
  snap_torpedoes :: "torp_pub list"
  snap_fuelers :: "fueler_pub list"
  snap_time :: real

record explosion_obj =
  ex_time :: real
  ex_at :: "real \<times> real \<times> real"
  ex_torpedo_id :: string
  ex_blast_radius :: real
  ex_damage :: real
  ex_distance :: real

text \<open>
  The payload of a passive \<open>contact\<close> or \<open>torpedo_contact\<close> event. \<open>pc_observer\<close> is
  \<open>observer_sub_id\<close> (or \<open>torpedo_id\<close> for a torpedo observer).
\<close>

record contact_obj =
  pc_type :: string
  pc_observer :: string
  pc_bearing :: real
  pc_bearing_relative :: real
  pc_range_class :: string
  pc_snr :: real
  pc_contact_type :: string
  pc_time :: real

datatype event =
  Snapshot snapshot_obj
| Explosion explosion_obj
| Contact contact_obj
| TorpedoContact contact_obj

text \<open>
  \<open>USER_QUEUES\<close>: one bounded queue (\<open>maxsize=1000\<close>) per user, created on first use by
  \<open>_uq\<close>; \<open>put_nowait\<close> on a full queue raises \<open>queue.Full\<close>, which the senders swallow.
\<close>

type_synonym user_queues = "int \<rightharpoonup> event list"

definition uq :: "user_queues \<Rightarrow> int \<Rightarrow> user_queues" where
  "uq qs user_id = (if user_id \<in> dom qs then qs else qs(user_id \<mapsto> []))"

definition put_nowait :: "user_queues \<Rightarrow> int \<Rightarrow> event \<Rightarrow> user_queues" where
  "put_nowait qs user_id ev =
     (case qs user_id of
        None \<Rightarrow> qs
      | Some q \<Rightarrow> if length q < 1000 then qs(user_id \<mapsto> q @ [ev]) else qs)"

definition send_private :: "user_queues \<Rightarrow> int \<Rightarrow> event \<Rightarrow> user_queues" where
  "send_private qs user_id ev = put_nowait (uq qs user_id) user_id ev"

text \<open>
  \<open>send_snapshot\<close> queries the store: the user's submarines, the user's torpedoes and
  \<open>FuelerModel.query.all()\<close>. \<open>send_snapshot_mem\<close> filters the tick loop's lists itself.
\<close>

definition send_snapshot ::
  "SubModel list \<Rightarrow> TorpedoModel list \<Rightarrow> FuelerModel list \<Rightarrow> real \<Rightarrow>
   user_queues \<Rightarrow> int \<Rightarrow> user_queues" where
  "send_snapshot db_subs db_torps db_fuelers now qs user_id =
     (let subs = filter (\<lambda>s. s_owner_id s = user_id) db_subs;
          torps = filter (\<lambda>t. t_owner_id t = user_id) db_torps;
          fuelers = db_fuelers;
          qs1 = uq qs user_id;
          obj = \<lparr> snap_subs = map sub_pub_of subs,
                  snap_torpedoes = map torp_pub_of torps,
                  snap_fuelers = map fueler_pub_of fuelers,
                  snap_time = now \<rparr>
      in put_nowait qs1 user_id (Snapshot obj))"

definition send_snapshot_mem ::
  "FuelerModel list \<Rightarrow> real \<Rightarrow> user_queues \<Rightarrow> int \<Rightarrow> SubModel list \<Rightarrow>
   TorpedoModel list \<Rightarrow> user_queues" where
  "send_snapshot_mem db_fuelers now qs user_id subs torps =
     (let qs1 = uq qs user_id;
          fuelers = db_fuelers;
          obj = \<lparr> snap_subs = map sub_pub_of (filter (\<lambda>s. s_owner_id s = user_id) subs),
                  snap_torpedoes = map torp_pub_of (filter (\<lambda>t. t_owner_id t = user_id) torps),
                  snap_fuelers = map fueler_pub_of fuelers,
                  snap_time = now \<rparr>
      in put_nowait qs1 user_id (Snapshot obj))"

text \<open>The events a call appended to a user's queue.\<close>

definition delivered :: "user_queues \<Rightarrow> user_queues \<Rightarrow> int \<Rightarrow> event list" where
  "delivered qs qs' user_id =
     drop (length (case qs user_id of None \<Rightarrow> [] | Some q \<Rightarrow> q))
          (case qs' user_id of None \<Rightarrow> [] | Some q \<Rightarrow> q)"

text \<open>What the claim asks of a snapshot payload sent to \<open>user_id\<close>.\<close>

definition snapshot_scoped ::
  "int \<Rightarrow> SubModel list \<Rightarrow> TorpedoModel list \<Rightarrow> FuelerModel list \<Rightarrow> snapshot_obj \<Rightarrow> bool" where
  "snapshot_scoped user_id subs torps fuelers obj \<longleftrightarrow>
     (\<forall>p \<in> set (snap_subs obj). \<exists>s \<in> set subs. s_owner_id s = user_id \<and> p = sub_pub_of s) \<and>
     (\<forall>s \<in> set subs. s_owner_id s = user_id \<longrightarrow> sub_pub_of s \<in> set (snap_subs obj)) \<and>
     (\<forall>p \<in> set (snap_torpedoes obj). \<exists>t \<in> set torps. t_owner_id t = user_id \<and> p = torp_pub_of t) \<and>
     (\<forall>t \<in> set torps. t_owner_id t = user_id \<longrightarrow> torp_pub_of t \<in> set (snap_torpedoes obj)) \<and>
     length (snap_fuelers obj) = length fuelers \<and>
     (\<forall>i < length fuelers.
        fp_id (snap_fuelers obj ! i) = f_id (fuelers ! i) \<and>
        fp_x (snap_fuelers obj ! i) = f_x (fuelers ! i) \<and>
        fp_y (snap_fuelers obj ! i) = f_y (fuelers ! i) \<and>
        fp_depth (snap_fuelers obj ! i) = f_depth (fuelers ! i) \<and>
        fp_fuel (snap_fuelers obj ! i) = f_fuel (fuelers ! i))"


subsection \<open>Angles\<close>

text \<open>\<open>wrap_angle\<close>: two \<open>while\<close> loops, each a recursion that terminates.\<close>

function wrap_down :: "real \<Rightarrow> real" where
  "wrap_down a = (if a \<ge> pi then wrap_down (a - 2 * pi) else a)"
  by pat_completeness auto
termination
proof (relation "measure (\<lambda>a. nat \<lceil>a / (2 * pi)\<rceil>)")
  show "wf (measure (\<lambda>a. nat \<lceil>a / (2 * pi)\<rceil>))" by simp
next
  fix a :: real
  assume a: "pi \<le> a"
  have p: "0 < pi" by (rule pi_gt_zero)
  have e: "(a - 2 * pi) / (2 * pi) = a / (2 * pi) - 1"
    using p by (simp add: field_simps)
  have h: "1 / 2 \<le> a / (2 * pi)"
    using a p by (simp add: field_simps)
  have c: "1 \<le> \<lceil>a / (2 * pi)\<rceil>"
    using h by linarith
  have k: "\<lceil>(a - 2 * pi) / (2 * pi)\<rceil> = \<lceil>a / (2 * pi)\<rceil> - 1"
    unfolding e by (rule ceiling_diff_one)
  have "nat \<lceil>(a - 2 * pi) / (2 * pi)\<rceil> < nat \<lceil>a / (2 * pi)\<rceil>"
    using c k by linarith
  then show "(a - 2 * pi, a) \<in> measure (\<lambda>a. nat \<lceil>a / (2 * pi)\<rceil>)"
    unfolding in_measure .
qed

function wrap_up :: "real \<Rightarrow> real" where
  "wrap_up a = (if a < - pi then wrap_up (a + 2 * pi) else a)"
  by pat_completeness auto
termination
proof (relation "measure (\<lambda>a. nat \<lceil>- a / (2 * pi)\<rceil>)")
  show "wf (measure (\<lambda>a. nat \<lceil>- a / (2 * pi)\<rceil>))" by simp
next
  fix a :: real
  assume a: "a < - pi"
  have p: "0 < pi" by (rule pi_gt_zero)
  have e: "- (a + 2 * pi) / (2 * pi) = - a / (2 * pi) - 1"
    using p by (simp add: field_simps)
  have h: "1 / 2 < - a / (2 * pi)"
    using a p by (simp add: field_simps)
  have c: "1 \<le> \<lceil>- a / (2 * pi)\<rceil>"
    using h by linarith
  have k: "\<lceil>- (a + 2 * pi) / (2 * pi)\<rceil> = \<lceil>- a / (2 * pi)\<rceil> - 1"
    unfolding e by (rule ceiling_diff_one)
  have "nat \<lceil>- (a + 2 * pi) / (2 * pi)\<rceil> < nat \<lceil>- a / (2 * pi)\<rceil>"
    using c k by linarith
  then show "(a + 2 * pi, a) \<in> measure (\<lambda>a. nat \<lceil>- a / (2 * pi)\<rceil>)"
    unfolding in_measure .
qed

declare wrap_down.simps [simp del] wrap_up.simps [simp del]

definition wrap_angle :: "real \<Rightarrow> real" where
  "wrap_angle a = wrap_up (wrap_down a)"

text \<open>\<open>math.atan2(y, x)\<close>, by the quadrant of \<open>(x, y)\<close>.\<close>

definition atan2 :: "real \<Rightarrow> real \<Rightarrow> real" where
  "atan2 y x =
     (if 0 < x then arctan (y / x)
      else if x < 0 \<and> 0 \<le> y then arctan (y / x) + pi
      else if x < 0 \<and> y < 0 then arctan (y / x) - pi
      else if 0 < y then pi / 2
      else if y < 0 then - pi / 2
      else 0)"

text \<open>\<open>random.uniform(a, b)\<close> is \<open>a + (b - a) * random()\<close>; the draw \<open>r\<close> is an argument.\<close>

definition uniform :: "real \<Rightarrow> real \<Rightarrow> real \<Rightarrow> real" where
  "uniform a b r = a + (b - a) * r"

subsection \<open>Configuration\<close>

text \<open>
  \<open>GAME_CFG\<close> is \<open>DEFAULT_CFG\<close> deep-merged with the user's file. Each record below is one
  of its sections; a key the code reads with \<open>.get(key, fallback)\<close> and that
  \<open>DEFAULT_CFG\<close> lacks carries that fallback in \<open>DEFAULT_CFG\<close> here.
\<close>

record sub_cfg =
  sub_max_speed :: real
  sub_acceleration :: real
  sub_yaw_rate_deg_s :: real
  sub_pitch_rate_deg_s :: real
  sub_planes_effect :: real
  sub_neutral_bias :: real
  sub_snorkel_depth :: real
  sub_snorkel_off_hysteresis :: real
  sub_max_per_user :: int
  sub_respawn_cooldown_s :: real
  sub_max_rudder_deg :: real
  sub_rudder_rate_deg_s :: real
  sub_crush_depth :: real
  sub_crush_dps_per_100m :: real
  eb_duration_s :: real
  eb_upward_mps :: real
  eb_recharge_per_s_at_snorkel :: real
  bat_initial_min :: real
  bat_initial_max :: real
  bat_drain_per_throttle_per_s :: real
  bat_high_speed_multiplier :: real
  bat_recharge_per_s_snorkel :: real
  bat_max_fuel_capacity :: real
  bat_refuel_rate_per_s :: real

record torpedo_cfg =
  torp_speed :: real
  torp_blast_radius :: real
  torp_max_range :: real
  torp_proximity_fuze_m :: real
  torp_magazine_size :: int
  torp_reload_battery_cost_per_torp :: real
  tsp_max_range :: real
  tsp_report_interval_s :: "real \<times> real"
  tsp_bearing_jitter_deg :: real

record sonar_cfg =
  pas_base_snr :: real
  pas_speed_noise_gain :: real
  pas_snorkel_bonus :: real
  pas_bearing_jitter_deg :: real
  pas_report_interval_s :: "real \<times> real"
  pas_scanner_noise_bonus_db :: real
  act_max_range :: real
  act_max_angle :: real
  pow_base_cost :: real
  pow_cost_per_degree :: real
  pow_cost_per_100m_range :: real
  pow_min_battery :: real

record world_cfg =
  ring_x :: real
  ring_y :: real
  ring_r :: real
  spawn_min_r :: real
  spawn_max_r :: real
  safe_spawn_separation :: real
  wx_sonar_attenuation_db :: real
  wx_cloud_close_hear_range_m :: real
  wx_scanner_battery_cost :: real
  wx_scanner_noise_duration_s :: real

record game_cfg =
  cfg_sub :: sub_cfg
  cfg_torpedo :: torpedo_cfg
  cfg_sonar :: sonar_cfg
  cfg_world :: world_cfg

definition DEFAULT_CFG :: game_cfg where
  "DEFAULT_CFG =
     \<lparr> cfg_sub =
         \<lparr> sub_max_speed = 12, sub_acceleration = 2, sub_yaw_rate_deg_s = 3,
           sub_pitch_rate_deg_s = 12, sub_planes_effect = 1, sub_neutral_bias = 8 / 1000,
           sub_snorkel_depth = 15, sub_snorkel_off_hysteresis = 2, sub_max_per_user = 2,
           sub_respawn_cooldown_s = 7200, sub_max_rudder_deg = 30,
           sub_rudder_rate_deg_s = 60, sub_crush_depth = 500, sub_crush_dps_per_100m = 30,
           eb_duration_s = 10, eb_upward_mps = 5, eb_recharge_per_s_at_snorkel = 6 / 100,
           bat_initial_min = 40, bat_initial_max = 80,
           bat_drain_per_throttle_per_s = 1 / 10, bat_high_speed_multiplier = 15,
           bat_recharge_per_s_snorkel = 25 / 100, bat_max_fuel_capacity = 1000,
           bat_refuel_rate_per_s = 50 \<rparr>,
       cfg_torpedo =
         \<lparr> torp_speed = 6, torp_blast_radius = 60, torp_max_range = 6000,
           torp_proximity_fuze_m = 0, torp_magazine_size = 4,
           torp_reload_battery_cost_per_torp = 10,
           tsp_max_range = 2000, tsp_report_interval_s = (1, 3),
           tsp_bearing_jitter_deg = 8 \<rparr>,
       cfg_sonar =
         \<lparr> pas_base_snr = 8, pas_speed_noise_gain = 6 / 10, pas_snorkel_bonus = 15,
           pas_bearing_jitter_deg = 3, pas_report_interval_s = (2, 4),
           pas_scanner_noise_bonus_db = 8,
           act_max_range = 6000, act_max_angle = 210,
           pow_base_cost = 5 / 10, pow_cost_per_degree = 4 / 100,
           pow_cost_per_100m_range = 2683 / 10000, pow_min_battery = 5 \<rparr>,
       cfg_world =
         \<lparr> ring_x = 0, ring_y = 0, ring_r = 6000,
           spawn_min_r = 500, spawn_max_r = 4500, safe_spawn_separation = 800,
           wx_sonar_attenuation_db = 3, wx_cloud_close_hear_range_m = 400,
           wx_scanner_battery_cost = 1, wx_scanner_noise_duration_s = 8 \<rparr> \<rparr>"

subsection \<open>Weather field\<close>

record cloud =
  c_x :: real
  c_y :: real
  c_radius :: real
  c_min_depth :: real
  c_max_depth :: real
  c_attenuation_db :: real
  c_damage_dps :: real

definition is_outside_ring :: "game_cfg \<Rightarrow> real \<Rightarrow> real \<Rightarrow> bool" where
  "is_outside_ring cfg x y \<longleftrightarrow>
     distance x y (ring_x (cfg_world cfg)) (ring_y (cfg_world cfg)) > ring_r (cfg_world cfg)"

fun cloud_att_loop :: "cloud list \<Rightarrow> real \<Rightarrow> real \<Rightarrow> real \<Rightarrow> real \<Rightarrow> real" where
  "cloud_att_loop [] x y depth best = best"
| "cloud_att_loop (c # cs) x y depth best =
     (if depth < c_min_depth c \<or> depth > c_max_depth c then cloud_att_loop cs x y depth best
      else if distance x y (c_x c) (c_y c) \<le> c_radius c
        then cloud_att_loop cs x y depth (max best (c_attenuation_db c))
      else cloud_att_loop cs x y depth best)"

definition weather_cloud_attenuation :: "cloud list \<Rightarrow> real \<Rightarrow> real \<Rightarrow> real \<Rightarrow> real" where
  "weather_cloud_attenuation clouds x y depth =
     (if clouds = [] then 0 else cloud_att_loop clouds x y depth 0)"

definition seg_point_dist :: "real \<Rightarrow> real \<Rightarrow> real \<Rightarrow> real \<Rightarrow> real \<Rightarrow> real \<Rightarrow> real" where
  "seg_point_dist px py ax ay bx by =
     (let dx = bx - ax; dy = by - ay
      in if dx = 0 \<and> dy = 0 then distance px py ax ay
         else let t0 = ((px - ax) * dx + (py - ay) * dy) / (dx * dx + dy * dy);
                  t = max 0 (min 1 t0);
                  cx = ax + t * dx;
                  cy = ay + t * dy
              in distance px py cx cy)"

fun cloud_occ_loop ::
  "cloud list \<Rightarrow> real \<Rightarrow> real \<Rightarrow> real \<Rightarrow> real \<Rightarrow> real \<Rightarrow> real \<Rightarrow> real \<Rightarrow> real" where
  "cloud_occ_loop [] x1 y1 x2 y2 seg_min_d seg_max_d best = best"
| "cloud_occ_loop (c # cs) x1 y1 x2 y2 seg_min_d seg_max_d best =
     (if seg_max_d < c_min_depth c \<or> seg_min_d > c_max_depth c
        then cloud_occ_loop cs x1 y1 x2 y2 seg_min_d seg_max_d best
      else if seg_point_dist (c_x c) (c_y c) x1 y1 x2 y2 \<le> c_radius c
        then cloud_occ_loop cs x1 y1 x2 y2 seg_min_d seg_max_d (max best (c_attenuation_db c))
      else cloud_occ_loop cs x1 y1 x2 y2 seg_min_d seg_max_d best)"

definition weather_cloud_occlusion ::
  "cloud list \<Rightarrow> real \<Rightarrow> real \<Rightarrow> real \<Rightarrow> real \<Rightarrow> real \<Rightarrow> real \<Rightarrow> real" where
  "weather_cloud_occlusion clouds x1 y1 d1 x2 y2 d2 =
     (if clouds = [] then 0
      else cloud_occ_loop clouds x1 y1 x2 y2 (min d1 d2) (max d1 d2) 0)"

fun cloud_dmg_loop :: "cloud list \<Rightarrow> real \<Rightarrow> real \<Rightarrow> real \<Rightarrow> real \<Rightarrow> real" where
  "cloud_dmg_loop [] x y depth dps = dps"
| "cloud_dmg_loop (c # cs) x y depth dps =
     (if depth < c_min_depth c \<or> depth > c_max_depth c then cloud_dmg_loop cs x y depth dps
      else if distance x y (c_x c) (c_y c) \<le> c_radius c
        then cloud_dmg_loop cs x y depth (max dps (c_damage_dps c))
      else cloud_dmg_loop cs x y depth dps)"

definition weather_cloud_damage :: "game_cfg \<Rightarrow> cloud list \<Rightarrow> real \<Rightarrow> real \<Rightarrow> real \<Rightarrow> real" where
  "weather_cloud_damage cfg clouds x y depth =
     (if clouds = [] then 0
      else if \<not> is_outside_ring cfg x y then 0
      else cloud_dmg_loop clouds x y depth 0)"


subsection \<open>Control API: submarine handlers\<close>

text \<open>
  A handler receives the caller's id (\<open>request.user.id\<close>), the row that
  \<open>SubModel.query.get(sub_id)\<close> returned and the fields of the JSON body. A body field is
  absent, \<open>null\<close> or a value.
\<close>

datatype 'a json_field = Absent | Null | Val 'a

text \<open>\<open>if not s or s.owner_id != request.user.id: return 404\<close>, with the handler's message.\<close>

definition owned_sub :: "int \<Rightarrow> SubModel option \<Rightarrow> string \<Rightarrow> api_error + SubModel" where
  "owned_sub user_id row msg =
     (case row of
        None \<Rightarrow> Inl (404, msg)
      | Some s \<Rightarrow> if s_owner_id s \<noteq> user_id then Inl (404, msg) else Inr s)"

record control_req =
  cr_target_depth :: "real json_field"
  cr_throttle :: "real option"
  cr_planes :: "real option"
  cr_rudder_deg :: "real option"
  cr_rudder_nudge_deg :: "real option"

text \<open>
  \<open>control\<close>. A division by \<open>MAX_RUDDER_DEG = 0\<close> raises \<open>ZeroDivisionError\<close>, which the
  framework answers with status 500.
\<close>

definition control :: "game_cfg \<Rightarrow> int \<Rightarrow> SubModel option \<Rightarrow> control_req \<Rightarrow> api_error + SubModel" where
  "control cfg user_id row d =
     (let MAX_RUDDER_DEG = sub_max_rudder_deg (cfg_sub cfg) in
      case owned_sub user_id row ''not found'' of
        Inl e \<Rightarrow> Inl e
      | Inr s \<Rightarrow>
          let s1 = (case cr_target_depth d of
                      Absent \<Rightarrow> s
                    | Null \<Rightarrow> s\<lparr>s_target_depth := None\<rparr>
                    | Val td \<Rightarrow> s\<lparr>s_target_depth := Some td\<rparr>);
              s2 = (case cr_throttle d of
                      None \<Rightarrow> s1
                    | Some v \<Rightarrow> s1\<lparr>s_throttle := clamp v 0 1\<rparr>);
              s3 = (case cr_planes d of
                      None \<Rightarrow> s2
                    | Some v \<Rightarrow> s2\<lparr>s_planes := clamp v (- 1) 1\<rparr>)
          in if (cr_rudder_deg d \<noteq> None \<or> cr_rudder_nudge_deg d \<noteq> None) \<and> MAX_RUDDER_DEG = 0
             then Inl (500, ''ZeroDivisionError'')
             else
               let s4 = (case cr_rudder_deg d of
                           None \<Rightarrow> s3
                         | Some v \<Rightarrow>
                             let rdeg = clamp v (- MAX_RUDDER_DEG) MAX_RUDDER_DEG
                             in s3\<lparr>s_rudder_cmd := Some (rdeg / MAX_RUDDER_DEG)\<rparr>);
                   s5 = (case cr_rudder_nudge_deg d of
                           None \<Rightarrow> s4
                         | Some nudge \<Rightarrow>
                             let curr_deg = (case s_rudder_cmd s4 of None \<Rightarrow> 0 | Some c \<Rightarrow> c)
                                              * MAX_RUDDER_DEG;
                                 new_deg = clamp (curr_deg + nudge) (- MAX_RUDDER_DEG) MAX_RUDDER_DEG
                             in s4\<lparr>s_rudder_cmd := Some (new_deg / MAX_RUDDER_DEG)\<rparr>)
               in Inr s5)"

text \<open>\<open>snorkel\<close>: \<open>sn_toggle\<close> is \<open>bool(d.get("toggle", False))\<close>, \<open>sn_on\<close> the \<open>"on"\<close> key.\<close>

definition snorkel :: "game_cfg \<Rightarrow> int \<Rightarrow> SubModel option \<Rightarrow> bool \<Rightarrow> bool option \<Rightarrow> api_error + SubModel" where
  "snorkel cfg user_id row sn_toggle sn_on =
     (let snorkel_depth = sub_snorkel_depth (cfg_sub cfg) in
      case owned_sub user_id row ''not found'' of
        Inl e \<Rightarrow> Inl e
      | Inr s \<Rightarrow>
          let do_toggle = sn_toggle \<or> sn_on = None in
          if do_toggle then
            (if \<not> s_is_snorkeling s then
               (if s_depth s > snorkel_depth then Inl (400, ''too deep to snorkel'')
                else Inr (s\<lparr>s_is_snorkeling := True\<rparr>))
             else Inr (s\<lparr>s_is_snorkeling := False\<rparr>))
          else
            (let want_on = (case sn_on of None \<Rightarrow> True | Some b \<Rightarrow> b) in
             if want_on then
               (if s_depth s > snorkel_depth then Inl (400, ''too deep to snorkel'')
                else Inr (s\<lparr>s_is_snorkeling := True\<rparr>))
             else Inr (s\<lparr>s_is_snorkeling := False\<rparr>)))"

definition emergency_blow :: "game_cfg \<Rightarrow> int \<Rightarrow> SubModel option \<Rightarrow> real \<Rightarrow> api_error + SubModel" where
  "emergency_blow cfg user_id row now =
     (case owned_sub user_id row ''not found'' of
        Inl e \<Rightarrow> Inl e
      | Inr s \<Rightarrow>
          if s_blow_charge s \<le> 0 then Inl (400, ''no charge'')
          else Inr (s\<lparr>s_blow_active := True,
                      s_blow_end := now + eb_duration_s (cfg_sub cfg)\<rparr>))"

record launch_resp =
  lr_torpedo_id :: string
  lr_range :: real
  lr_battery_cost :: real
  lr_spawn :: "real \<times> real \<times> real"
  lr_torpedo_ammo :: int
  lr_magazine_size :: int

text \<open>
  \<open>launch_torpedo\<close>. \<open>range_arg\<close> is the body's \<open>range\<close> (default 1000), \<open>new_id\<close> the new
  row's id. Columns the constructor call does not name take their column defaults.
\<close>

definition launch_torpedo ::
  "game_cfg \<Rightarrow> int \<Rightarrow> SubModel option \<Rightarrow> real option \<Rightarrow> real \<Rightarrow> string \<Rightarrow>
   api_error + (SubModel \<times> TorpedoModel \<times> launch_resp)" where
  "launch_torpedo cfg user_id row range_arg now new_id =
     (let torpedo_range0 = (case range_arg of None \<Rightarrow> 1000 | Some r \<Rightarrow> r);
          max_range = torp_max_range (cfg_torpedo cfg);
          torpedo_range = min torpedo_range0 max_range;
          battery_cost = 0;
          NOSE_OFFSET = 12
      in case owned_sub user_id row ''sub not found'' of
           Inl e \<Rightarrow> Inl e
         | Inr s \<Rightarrow>
             let mag_size = torp_magazine_size (cfg_torpedo cfg);
                 current_ammo = s_torpedo_ammo s
             in if current_ammo \<le> 0 then Inl (400, ''no torpedoes loaded'')
                else
                  let s1 = s\<lparr>s_torpedo_ammo := current_ammo - 1\<rparr>;
                      cosH = cos (s_heading s1);
                      sinH = sin (s_heading s1);
                      spawn_x = s_x s1 + cosH * NOSE_OFFSET;
                      spawn_y = s_y s1 + sinH * NOSE_OFFSET;
                      spawn_depth = s_depth s1;
                      t = \<lparr> t_id = new_id, t_owner_id = user_id, t_parent_sub = s_id s1,
                            t_x = spawn_x, t_y = spawn_y, t_depth = spawn_depth,
                            t_target_depth = None, t_heading = s_heading s1,
                            t_target_heading = None,
                            t_speed = torp_speed (cfg_torpedo cfg),
                            t_target_speed = torp_speed (cfg_torpedo cfg),
                            t_created_at = now, t_control_mode = Wire,
                            t_wire_length = torpedo_range,
                            t_passive_sonar_active = True, t_passive_sonar_bearing = 0,
                            t_last_sonar_contact = 0, t_active_sonar_enabled = False,
                            t_last_active_ping = 0, t_battery = Some 100,
                            t_battery_dead = False, t_expired = False, t_check_prox = False,
                            t_min_safe_distance = None, t_delete = False \<rparr>
                  in Inr (s1, t,
                          \<lparr> lr_torpedo_id = new_id, lr_range = torpedo_range,
                            lr_battery_cost = battery_cost,
                            lr_spawn = (spawn_x, spawn_y, spawn_depth),
                            lr_torpedo_ammo = s_torpedo_ammo s1,
                            lr_magazine_size = mag_size \<rparr>))"

text \<open>
  The body's \<open>count\<close> for \<open>reload_torpedoes\<close>: absent (or \<open>null\<close>), a value that \<open>int()\<close>
  converts, or one on which \<open>int()\<close> raises \<open>TypeError\<close> or \<open>ValueError\<close>.
\<close>

datatype count_arg = NoCount | CountInt int | CountInvalid

record reload_resp =
  rr_reloaded :: int
  rr_battery_cost :: real
  rr_battery_remaining :: real
  rr_torpedo_ammo :: int
  rr_magazine_size :: int

definition reload_torpedoes ::
  "game_cfg \<Rightarrow> int \<Rightarrow> SubModel option \<Rightarrow> count_arg \<Rightarrow> api_error + (SubModel \<times> reload_resp)" where
  "reload_torpedoes cfg user_id row requested =
     (case owned_sub user_id row ''sub not found'' of
        Inl e \<Rightarrow> Inl e
      | Inr s \<Rightarrow>
          let mag_size = torp_magazine_size (cfg_torpedo cfg);
              reload_cost_per = torp_reload_battery_cost_per_torp (cfg_torpedo cfg);
              current_ammo = s_torpedo_ammo s;
              missing = max 0 (mag_size - current_ammo)
          in if missing \<le> 0 then Inl (400, ''magazine already full'')
             else
               (case (case requested of
                        NoCount \<Rightarrow> Inr missing
                      | CountInvalid \<Rightarrow> Inl (400, ''invalid count'')
                      | CountInt n \<Rightarrow>
                          if n \<le> 0 then Inl (400, ''count must be positive'')
                          else Inr (min n missing)) of
                  Inl e \<Rightarrow> Inl e
                | Inr to_reload \<Rightarrow>
                    let battery_cost = reload_cost_per * of_int to_reload in
                    if s_battery s < battery_cost then Inl (400, ''not enough battery'')
                    else
                      let s1 = s\<lparr>s_battery := clamp (s_battery s - battery_cost) 0 100,
                                  s_torpedo_ammo := current_ammo + to_reload\<rparr>
                      in Inr (s1,
                              \<lparr> rr_reloaded = to_reload, rr_battery_cost = battery_cost,
                                rr_battery_remaining = s_battery s1,
                                rr_torpedo_ammo = s_torpedo_ammo s1,
                                rr_magazine_size = mag_size \<rparr>)))"

record heading_resp =
  hr_heading :: real
  hr_target_heading :: "real option"
  hr_compass_heading :: real
  hr_compass_target :: "real option"

text \<open>
  The response both heading handlers build after the commit ("Convert back to compass
  degrees for response"). \<open>x if s.target_heading else None\<close> is \<open>None\<close> for a target that
  is \<open>None\<close> or \<open>0.0\<close>.
\<close>

definition heading_response :: "SubModel \<Rightarrow> heading_resp" where
  "heading_response s =
     \<lparr> hr_heading = s_heading s,
       hr_target_heading = s_target_heading s,
       hr_compass_heading = py_fmod (s_heading s * 180 / pi + 90) 360,
       hr_compass_target =
         (case s_target_heading s of
            None \<Rightarrow> None
          | Some th \<Rightarrow> if th = 0 then None else Some (py_fmod (th * 180 / pi + 90) 360)) \<rparr>"

definition set_sub_heading ::
  "int \<Rightarrow> SubModel option \<Rightarrow> real json_field \<Rightarrow> api_error + (SubModel \<times> heading_resp)" where
  "set_sub_heading user_id row heading_deg =
     (case owned_sub user_id row ''not found'' of
        Inl e \<Rightarrow> Inl e
      | Inr s \<Rightarrow>
          (case heading_deg of
             Absent \<Rightarrow> Inl (400, ''heading_deg required'')
           | Null \<Rightarrow>
               let s1 = s\<lparr>s_target_heading := None\<rparr> in Inr (s1, heading_response s1)
           | Val compass_deg \<Rightarrow>
               let server_deg = py_fmod (90 - compass_deg) 360;
                   desired = radians server_deg;
                   s1 = s\<lparr>s_target_heading := Some desired\<rparr>
               in Inr (s1, heading_response s1)))"

definition turn_sub ::
  "int \<Rightarrow> SubModel option \<Rightarrow> real option \<Rightarrow> api_error + (SubModel \<times> heading_resp)" where
  "turn_sub user_id row turn_deg_arg =
     (case owned_sub user_id row ''not found'' of
        Inl e \<Rightarrow> Inl e
      | Inr s \<Rightarrow>
          (case turn_deg_arg of
             None \<Rightarrow> Inl (400, ''turn_deg required'')
           | Some turn_deg \<Rightarrow>
               let turn_rad = radians turn_deg;
                   new_heading = wrap_angle (s_heading s + turn_rad);
                   compass_deg = py_fmod (new_heading * 180 / pi + 90) 360;
                   server_deg = py_fmod (90 - compass_deg) 360;
                   s1 = s\<lparr>s_target_heading := Some (radians server_deg)\<rparr>
               in Inr (s1, heading_response s1)))"

text \<open>
  The conversion the bundled clients use for the same direction
  (\<open>compass_deg_from_rad\<close> in \<open>bots/apex_brain.py\<close>: "World radians (0 = east, CCW+) ->
  compass degrees (0 = north, CW+)"), and \<open>weather_scan\<close> for its \<open>bearing_deg\<close>.
\<close>

definition compass_deg_from_rad :: "real \<Rightarrow> real" where
  "compass_deg_from_rad rad = py_fmod (90 - rad * 180 / pi) 360"

definition set_passive_array :: "int \<Rightarrow> SubModel option \<Rightarrow> real option \<Rightarrow> api_error + SubModel" where
  "set_passive_array user_id row dir_deg =
     (let deg = (case dir_deg of None \<Rightarrow> 0 | Some v \<Rightarrow> v) in
      case owned_sub user_id row ''not found'' of
        Inl e \<Rightarrow> Inl e
      | Inr s \<Rightarrow> Inr (s\<lparr>s_passive_dir := radians deg\<rparr>))"

record ping_req =
  pq_beamwidth_deg :: "real option"
  pq_max_range :: "real option"
  pq_center_bearing_deg :: "real option"

record ping_resp =
  pr_battery_cost :: real
  pr_base :: real
  pr_angle :: real
  pr_range :: real
  pr_battery_remaining :: real
  pr_beam_deg :: real
  pr_max_range :: real

text \<open>
  \<open>ping\<close>. \<open>ping_cooldown\<close> is the attribute of that name on the object \<open>s\<close>: \<open>None\<close> when
  \<open>hasattr(s, 'ping_cooldown')\<close> is false. On success the handler returns the row it
  commits, the attribute it left on the object and the response (whose figures the
  source rounds to two places; they are given unrounded). The echoes it schedules and the
  \<open>active_ping_detected\<close> notices go to \<open>PENDING_PINGS\<close> and to other users' queues and
  change no row. An error return commits nothing.
\<close>

definition ping ::
  "game_cfg \<Rightarrow> int \<Rightarrow> SubModel option \<Rightarrow> real option \<Rightarrow> ping_req \<Rightarrow> real \<Rightarrow>
   api_error + (SubModel \<times> real \<times> ping_resp)" where
  "ping cfg user_id row ping_cooldown d now =
     (let beam0 = (case pq_beamwidth_deg d of None \<Rightarrow> 20 | Some v \<Rightarrow> v);
          max_r = (case pq_max_range d of None \<Rightarrow> act_max_range (cfg_sonar cfg) | Some v \<Rightarrow> v);
          max_angle = act_max_angle (cfg_sonar cfg);
          beam = min beam0 max_angle
      in case owned_sub user_id row ''not found'' of
           Inl e \<Rightarrow> Inl e
         | Inr s \<Rightarrow>
             let base_cost = pow_base_cost (cfg_sonar cfg);
                 angle_cost = beam * pow_cost_per_degree (cfg_sonar cfg);
                 range_cost = (max_r / 100) * pow_cost_per_100m_range (cfg_sonar cfg);
                 cost = base_cost + angle_cost + range_cost
             in if s_battery s < pow_min_battery (cfg_sonar cfg)
                  then Inl (400, ''battery too low'')
                else if s_battery s < cost then Inl (400, ''not enough battery'')
                else
                  let s1 = s\<lparr>s_battery := clamp (s_battery s - cost) 0 100\<rparr> in
                  if (case ping_cooldown of None \<Rightarrow> False | Some c \<Rightarrow> c > now)
                    then Inl (400, ''ping recharging'')
                  else Inr (s1, now + 5,
                            \<lparr> pr_battery_cost = cost, pr_base = base_cost,
                              pr_angle = angle_cost, pr_range = range_cost,
                              pr_battery_remaining = s_battery s1,
                              pr_beam_deg = beam, pr_max_range = max_r \<rparr>))"

text \<open>
  One \<open>/ping\<close> request. \<open>ping_cooldown\<close> is not a column of \<open>SubModel\<close>:
  \<open>SubModel.query.get(sub_id)\<close> builds the request's object from the row's columns, so
  the object a request starts with has no such attribute, and the value a request
  assigns is not part of what it commits.
\<close>

definition ping_request ::
  "game_cfg \<Rightarrow> int \<Rightarrow> SubModel option \<Rightarrow> ping_req \<Rightarrow> real \<Rightarrow> api_error + (SubModel \<times> ping_resp)" where
  "ping_request cfg user_id row d now =
     (case ping cfg user_id row None d now of
        Inl e \<Rightarrow> Inl e
      | Inr (s1, cooldown, resp) \<Rightarrow> Inr (s1, resp))"

text \<open>
  \<open>weather_scan\<close>, as far as it touches the row: the battery charge and the noise
  window. The list of detected clouds it returns is not modelled.
\<close>

definition weather_scan :: "game_cfg \<Rightarrow> int \<Rightarrow> SubModel option \<Rightarrow> real \<Rightarrow> api_error + SubModel" where
  "weather_scan cfg user_id row now =
     (let battery_cost = wx_scanner_battery_cost (cfg_world cfg);
          noise_duration = wx_scanner_noise_duration_s (cfg_world cfg)
      in case owned_sub user_id row ''not found'' of
           Inl e \<Rightarrow> Inl e
         | Inr s \<Rightarrow>
             if s_battery s < battery_cost then Inl (400, ''not enough battery'')
             else Inr (s\<lparr>s_battery := clamp (s_battery s - battery_cost) 0 100,
                         s_scanner_noise_until :=
                           max (s_scanner_noise_until s) (now + noise_duration)\<rparr>))"

fun nearest_fueler_loop ::
  "FuelerModel list \<Rightarrow> SubModel \<Rightarrow> (FuelerModel \<times> real) option \<Rightarrow> (FuelerModel \<times> real) option" where
  "nearest_fueler_loop [] s nearest = nearest"
| "nearest_fueler_loop (f # fs) s nearest =
     (if f_fuel f \<le> 0 then nearest_fueler_loop fs s nearest
      else
        let d = distance3d (s_x s) (s_y s) (s_depth s) (f_x f) (f_y f) (f_depth f) in
        case nearest of
          None \<Rightarrow> nearest_fueler_loop fs s (Some (f, d))
        | Some (nf, nearest_d) \<Rightarrow>
            if d < nearest_d then nearest_fueler_loop fs s (Some (f, d))
            else nearest_fueler_loop fs s nearest)"

definition start_refuel ::
  "game_cfg \<Rightarrow> int \<Rightarrow> SubModel option \<Rightarrow> FuelerModel list \<Rightarrow> api_error + SubModel" where
  "start_refuel cfg user_id row fuelers =
     (case owned_sub user_id row ''sub not found'' of
        Inl e \<Rightarrow> Inl e
      | Inr s \<Rightarrow>
          if fuelers = [] then Inl (400, ''no fuelers available'')
          else
            (case nearest_fueler_loop fuelers s None of
               None \<Rightarrow> Inl (400, ''need to be within 50m of a fueler'')
             | Some (nearest, nearest_d) \<Rightarrow>
                 if nearest_d > 50 then Inl (400, ''need to be within 50m of a fueler'')
                 else
                   let snorkel_depth = sub_snorkel_depth (cfg_sub cfg)
                   in Inr (s\<lparr>s_refuel_active := True,
                              s_refuel_fueler_id := Some (f_id nearest),
                              s_refuel_timer := 0,
                              s_is_snorkeling := True,
                              s_target_depth := Some snorkel_depth\<rparr>)))"


subsection \<open>Registration\<close>

text \<open>
  \<open>random_spawn_pos\<close>: up to 50 candidate points, the \<open>i\<close>-th from the pair of draws
  \<open>draws i\<close>; the first one at least \<open>safe_spawn_separation\<close> from every submarine wins,
  and the ring's centre is the fallback.
\<close>

fun spawn_ok :: "SubModel list \<Rightarrow> real \<Rightarrow> real \<Rightarrow> real \<Rightarrow> bool" where
  "spawn_ok [] x y sep = True"
| "spawn_ok (s # ss) x y sep =
     (if distance x y (s_x s) (s_y s) < sep then False else spawn_ok ss x y sep)"

fun random_spawn_loop ::
  "game_cfg \<Rightarrow> SubModel list \<Rightarrow> (nat \<Rightarrow> real \<times> real) \<Rightarrow> nat \<Rightarrow> nat \<Rightarrow> real \<times> real" where
  "random_spawn_loop cfg db_subs draws 0 i = (ring_x (cfg_world cfg), ring_y (cfg_world cfg))"
| "random_spawn_loop cfg db_subs draws (Suc n) i =
     (let ang = uniform (- pi) pi (fst (draws i));
          r = uniform (spawn_min_r (cfg_world cfg)) (spawn_max_r (cfg_world cfg)) (snd (draws i));
          x = ring_x (cfg_world cfg) + cos ang * r;
          y = ring_y (cfg_world cfg) + sin ang * r
      in if spawn_ok db_subs x y (safe_spawn_separation (cfg_world cfg)) then (x, y)
         else random_spawn_loop cfg db_subs draws n (Suc i))"

definition random_spawn_pos ::
  "game_cfg \<Rightarrow> SubModel list \<Rightarrow> (nat \<Rightarrow> real \<times> real) \<Rightarrow> real \<times> real" where
  "random_spawn_pos cfg db_subs draws = random_spawn_loop cfg db_subs draws 50 0"

record reg_draws =
  rd_spawn :: "nat \<Rightarrow> real \<times> real"
  rd_depth :: real
  rd_heading :: real
  rd_battery :: real

text \<open>The 400 response of \<open>register_sub\<close>.\<close>

record reg_error =
  re_error :: string
  re_cooldown_remaining_s :: int
  re_active_subs :: nat
  re_available_slots :: int

text \<open>
  A death timestamp counts while \<open>ts and now_ts - float(ts or 0.0) < cooldown_s\<close>:
  a timestamp that is \<open>None\<close> or \<open>0.0\<close> is falsy.
\<close>

definition cooldown_active :: "real \<Rightarrow> real \<Rightarrow> real option \<Rightarrow> bool" where
  "cooldown_active now_ts cooldown_s ts =
     (case ts of None \<Rightarrow> False | Some t \<Rightarrow> t \<noteq> 0 \<and> now_ts - t < cooldown_s)"

definition active_cooldowns :: "real \<Rightarrow> real \<Rightarrow> User \<Rightarrow> real list" where
  "active_cooldowns now_ts cooldown_s urow =
     map (\<lambda>ts. now_ts - the ts)
       (filter (cooldown_active now_ts cooldown_s) [u_last_death_ts urow, u_prev_death_ts urow])"

definition rems :: "real \<Rightarrow> real \<Rightarrow> User \<Rightarrow> real list" where
  "rems now_ts cooldown_s urow =
     map (\<lambda>ts. cooldown_s - (now_ts - the ts))
       (filter (cooldown_active now_ts cooldown_s) [u_last_death_ts urow, u_prev_death_ts urow])"

text \<open>
  \<open>register_sub\<close>. \<open>db_subs\<close> is the \<open>SubModel\<close> table, \<open>urow\<close> the caller's \<open>User\<close> row
  (\<open>None\<close> if the lookup failed), \<open>new_id\<close> the id of the new row. Columns the constructor
  call does not name take their column defaults (\<open>fuel = 1000.0\<close>, no targets, no
  refuelling, \<open>created_at\<close> now, zero score and kills).
\<close>

definition register_sub ::
  "game_cfg \<Rightarrow> int \<Rightarrow> SubModel list \<Rightarrow> User option \<Rightarrow> real \<Rightarrow> reg_draws \<Rightarrow> string \<Rightarrow>
   reg_error + SubModel" where
  "register_sub cfg user_id db_subs urow now_ts draws new_id =
     (let max_subs_per_user = sub_max_per_user (cfg_sub cfg);
          current_subs = length (filter (\<lambda>s. s_owner_id s = user_id) db_subs);
          cooldown_s = sub_respawn_cooldown_s (cfg_sub cfg);
          blocked =
            (if current_subs > 0 \<and> cooldown_s > 0 \<and> urow \<noteq> None then
               let n_active = int (length (active_cooldowns now_ts cooldown_s (the urow)));
                   available_slots0 = max_subs_per_user - n_active;
                   available_slots = (if available_slots0 < 0 then 0 else available_slots0)
               in if int current_subs \<ge> available_slots then
                    let rs = rems now_ts cooldown_s (the urow);
                        remaining_s = (if rs \<noteq> [] then py_int (Min (set rs)) else 0)
                    in Some \<lparr> re_error = ''respawn cooldown active or slot limit reached'',
                              re_cooldown_remaining_s = remaining_s,
                              re_active_subs = current_subs,
                              re_available_slots = available_slots \<rparr>
                  else None
             else None)
      in case blocked of
           Some e \<Rightarrow> Inl e
         | None \<Rightarrow>
             let (x, y) = random_spawn_pos cfg db_subs (rd_spawn draws);
                 bmin = bat_initial_min (cfg_sub cfg);
                 bmax = bat_initial_max (cfg_sub cfg);
                 mag_size = torp_magazine_size (cfg_torpedo cfg)
             in Inr \<lparr> s_id = new_id, s_owner_id = user_id, s_x = x, s_y = y,
                      s_depth = uniform 80 180 (rd_depth draws),
                      s_heading = uniform (- pi) pi (rd_heading draws),
                      s_pitch = 0, s_rudder_angle = Some 0, s_rudder_cmd = Some 0,
                      s_planes = 0, s_throttle = 2 / 10,
                      s_target_depth = None, s_target_heading = None,
                      s_speed = 0, s_battery = uniform bmin bmax (rd_battery draws),
                      s_fuel = 1000, s_refuel_timer = 0, s_refuel_active = False,
                      s_refuel_fueler_id = None, s_is_snorkeling = False,
                      s_blow_active = False, s_blow_charge = 1, s_blow_end = 0,
                      s_health = 100, s_passive_dir = 0, s_created_at = now_ts,
                      s_last_report = 0, s_scanner_noise_until = 0,
                      s_torpedo_ammo = mag_size, s_score = 0, s_kills = 0 \<rparr>)"


subsection \<open>Weapons and damage\<close>

fun first_index :: "('a \<Rightarrow> bool) \<Rightarrow> 'a list \<Rightarrow> nat option" where
  "first_index P [] = None"
| "first_index P (x # xs) = (if P x then Some 0 else map_option Suc (first_index P xs))"

text \<open>"Graduated damage based on distance": the chain both detonation paths carry.\<close>

definition graduated_damage :: "real \<Rightarrow> real" where
  "graduated_damage d =
     (if d \<le> 60 then 100 else if d \<le> 80 then 75 else if d \<le> 100 then 50 else 25)"

type_synonym pending_events = "(int \<times> event) list"

text \<open>
  One iteration of \<open>for s in subs\<close> in \<open>explode_torpedo_in_mem\<close>, on the \<open>i\<close>-th submarine.
  The loop mutates the objects of \<open>subs\<close> in place; \<open>killer_sub\<close> is the first submarine
  of the torpedo's owner and may be any element of the list.
\<close>

definition explode_at ::
  "real \<Rightarrow> TorpedoModel \<Rightarrow> real \<Rightarrow> SubModel list \<times> pending_events \<Rightarrow> nat \<Rightarrow>
   SubModel list \<times> pending_events" where
  "explode_at blast t now st i =
     (let subs = fst st; pending = snd st; s = subs ! i;
          d = distance3d (t_x t) (t_y t) (t_depth t) (s_x s) (s_y s) (s_depth s)
      in if d \<le> blast \<and> s_health s > 0 then
           let damage = graduated_damage d;
               prev_health = s_health s;
               s1 = s\<lparr>s_health := max 0 (s_health s - damage)\<rparr>;
               subs1 = subs[i := s1];
               subs2 =
                 (if prev_health > 0 \<and> s_health s1 \<le> 0 then
                    (case first_index (\<lambda>sub. s_owner_id sub = t_owner_id t) subs1 of
                       None \<Rightarrow> subs1
                     | Some k \<Rightarrow>
                         subs1[k := (subs1 ! k)\<lparr>s_kills := s_kills (subs1 ! k) + 1,
                                                s_score := s_score (subs1 ! k) + 100\<rparr>])
                  else subs1)
           in (subs2,
               pending @
                 [(s_owner_id s,
                   Explosion \<lparr> ex_time = now, ex_at = (t_x t, t_y t, t_depth t),
                               ex_torpedo_id = t_id t, ex_blast_radius = blast,
                               ex_damage = damage, ex_distance = d \<rparr>)])
         else (subs, pending))"

definition explode_torpedo_in_mem ::
  "game_cfg \<Rightarrow> real \<Rightarrow> TorpedoModel \<Rightarrow> SubModel list \<Rightarrow> pending_events \<Rightarrow>
   SubModel list \<times> pending_events" where
  "explode_torpedo_in_mem cfg now t subs pending_events =
     (let blast = torp_blast_radius (cfg_torpedo cfg)
      in foldl (explode_at blast t now) (subs, pending_events) [0..<length subs])"

text \<open>
  The fuze loop of \<open>process_explosions_mem\<close>: does some submarine with health above 0
  lie within \<open>prox_fuze\<close>? (The loop explodes at the first one and breaks.)
\<close>

fun prox_hit :: "real \<Rightarrow> TorpedoModel \<Rightarrow> SubModel list \<Rightarrow> bool" where
  "prox_hit prox_fuze t [] = False"
| "prox_hit prox_fuze t (s # ss) =
     (if s_health s \<le> 0 then prox_hit prox_fuze t ss
      else if distance3d (t_x t) (t_y t) (t_depth t) (s_x s) (s_y s) (s_depth s) \<le> prox_fuze
        then True
      else prox_hit prox_fuze t ss)"

text \<open>The body of \<open>for t in torps\<close> in \<open>process_explosions_mem\<close>.\<close>

definition explosion_step ::
  "game_cfg \<Rightarrow> real \<Rightarrow> TorpedoModel \<Rightarrow> SubModel list \<times> pending_events \<Rightarrow>
   TorpedoModel \<times> SubModel list \<times> pending_events" where
  "explosion_step cfg now t st =
     (let subs = fst st; pending = snd st;
          prox_fuze = torp_proximity_fuze_m (cfg_torpedo cfg)
      in if t_battery_dead t \<and> \<not> t_delete t then
           (t\<lparr>t_delete := True\<rparr>, explode_torpedo_in_mem cfg now t subs pending)
         else if t_expired t then (t\<lparr>t_delete := True\<rparr>, subs, pending)
         else if t_check_prox t then
           let min_safe_distance = (case t_min_safe_distance t of None \<Rightarrow> 150 | Some m \<Rightarrow> m);
               parent = (if t_parent_sub t \<noteq> [] then find (\<lambda>s. s_id s = t_parent_sub t) subs
                         else None);
               too_close_to_parent =
                 (case parent of
                    None \<Rightarrow> False
                  | Some p \<Rightarrow>
                      distance3d (t_x t) (t_y t) (t_depth t) (s_x p) (s_y p) (s_depth p)
                        < min_safe_distance)
           in if too_close_to_parent then (t, subs, pending)
              else if prox_hit prox_fuze t subs then
                (t\<lparr>t_delete := True\<rparr>, explode_torpedo_in_mem cfg now t subs pending)
              else (t, subs, pending)
         else (t, subs, pending))"

fun process_explosions_mem ::
  "game_cfg \<Rightarrow> real \<Rightarrow> TorpedoModel list \<Rightarrow> SubModel list \<Rightarrow> pending_events \<Rightarrow>
   TorpedoModel list \<times> SubModel list \<times> pending_events" where
  "process_explosions_mem cfg now [] subs pending_events = ([], subs, pending_events)"
| "process_explosions_mem cfg now (t # ts) subs pending_events =
     (case explosion_step cfg now t (subs, pending_events) of
        (t1, subs1, pending1) \<Rightarrow>
          (case process_explosions_mem cfg now ts subs1 pending1 of
             (ts1, subs2, pending2) \<Rightarrow> (t1 # ts1, subs2, pending2)))"

text \<open>
  \<open>detonate_torp\<close> (\<open>POST /detonate\<close>), over the rows of \<open>SubModel.query.all()\<close>. It
  returns the table after the commit, the queues, and \<open>len(affected)\<close>; the torpedo's
  row is deleted.
\<close>

fun detonate_loop ::
  "real \<Rightarrow> TorpedoModel \<Rightarrow> real \<Rightarrow> SubModel list \<Rightarrow> user_queues \<Rightarrow> nat \<Rightarrow>
   SubModel list \<times> user_queues \<times> nat" where
  "detonate_loop blast t now [] qs affected = ([], qs, affected)"
| "detonate_loop blast t now (s # ss) qs affected =
     (let horiz = distance (t_x t) (t_y t) (s_x s) (s_y s);
          vert = \<bar>t_depth t - s_depth s\<bar>;
          d = sqrt (horiz * horiz + vert * vert)
      in if d \<le> blast then
           let damage = graduated_damage d;
               s1 = s\<lparr>s_health := max 0 (s_health s - damage)\<rparr>;
               qs1 = send_private qs (s_owner_id s)
                       (Explosion \<lparr> ex_time = now, ex_at = (t_x t, t_y t, t_depth t),
                                    ex_torpedo_id = t_id t, ex_blast_radius = blast,
                                    ex_damage = damage, ex_distance = d \<rparr>)
           in (case detonate_loop blast t now ss qs1 (Suc affected) of
                 (ss1, qs2, n) \<Rightarrow> (s1 # ss1, qs2, n))
         else
           (case detonate_loop blast t now ss qs affected of
              (ss1, qs2, n) \<Rightarrow> (s # ss1, qs2, n)))"

definition detonate_torp ::
  "game_cfg \<Rightarrow> int \<Rightarrow> TorpedoModel option \<Rightarrow> SubModel list \<Rightarrow> real \<Rightarrow> user_queues \<Rightarrow>
   api_error + (SubModel list \<times> user_queues \<times> nat)" where
  "detonate_torp cfg user_id trow db_subs now qs =
     (case trow of
        None \<Rightarrow> Inl (404, ''torpedo not found'')
      | Some t \<Rightarrow>
          if t_owner_id t \<noteq> user_id then Inl (403, ''not allowed'')
          else Inr (detonate_loop (torp_blast_radius (cfg_torpedo cfg)) t now db_subs qs 0))"


subsection \<open>Notions used in the statements about detonations\<close>

text \<open>A submarine record with the three fields that a detonation writes blanked.\<close>

definition shell_of :: "SubModel \<Rightarrow> SubModel" where
  "shell_of s = s\<lparr>s_health := 0, s_kills := 0, s_score := 0\<rparr>"

text \<open>The 3D distance from a torpedo to a submarine.\<close>

definition torp_dist :: "TorpedoModel \<Rightarrow> SubModel \<Rightarrow> real" where
  "torp_dist t s = distance3d (t_x t) (t_y t) (t_depth t) (s_x s) (s_y s) (s_depth s)"

text \<open>
  The health \<open>explode_torpedo_in_mem\<close> leaves a submarine with, read off one iteration
  of its loop.
\<close>

definition blast_health :: "real \<Rightarrow> TorpedoModel \<Rightarrow> SubModel \<Rightarrow> real" where
  "blast_health blast t s =
     (if torp_dist t s \<le> blast \<and> s_health s > 0
      then max 0 (s_health s - graduated_damage (torp_dist t s)) else s_health s)"


subsection \<open>Passive sonar\<close>

text \<open>
  The weather terms that \<open>schedule_passive_contacts\<close> subtracts from a signal between two
  points when their range is at least \<open>cloud_close_hear_range_m\<close>.
\<close>

definition weather_loss ::
  "game_cfg \<Rightarrow> cloud list \<Rightarrow> real \<Rightarrow> real \<Rightarrow> real \<Rightarrow> real \<Rightarrow> real \<Rightarrow> real \<Rightarrow> real \<Rightarrow> real" where
  "weather_loss cfg clouds rng ox oy od tx ty td =
     (if rng \<ge> wx_cloud_close_hear_range_m (cfg_world cfg) then
        (if is_outside_ring cfg ox oy \<or> is_outside_ring cfg tx ty
         then wx_sonar_attenuation_db (cfg_world cfg) else 0)
        + max (weather_cloud_attenuation clouds ox oy od)
              (weather_cloud_attenuation clouds tx ty td)
        + weather_cloud_occlusion clouds ox oy od tx ty td
      else 0)"

text \<open>
  One pass of the body of \<open>for tgt in subs\<close> for a submarine observer: \<open>None\<close> where the
  source says \<open>continue\<close>, otherwise the \<open>snr\<close> and \<open>rng\<close> the contact is built from.
\<close>

definition sub_target_check ::
  "game_cfg \<Rightarrow> cloud list \<Rightarrow> real \<Rightarrow> SubModel \<Rightarrow> SubModel \<Rightarrow> (real \<times> real) option" where
  "sub_target_check cfg clouds now obs tgt =
     (if s_owner_id tgt = s_owner_id obs \<and> s_id tgt = s_id obs then None
      else
        let pcfg = cfg_sonar cfg;
            speed_noise = pas_speed_noise_gain pcfg * (s_speed tgt / sub_max_speed (cfg_sub cfg));
            scanner_bonus = (if now < s_scanner_noise_until tgt
                             then pas_scanner_noise_bonus_db pcfg else 0);
            snorkel_bonus = (if s_is_snorkeling tgt then pas_snorkel_bonus pcfg else 0);
            blow_bonus = (if s_blow_active tgt then 25 else 0);
            rng = distance (s_x obs) (s_y obs) (s_x tgt) (s_y tgt);
            base = pas_base_snr pcfg + speed_noise + snorkel_bonus + blow_bonus + scanner_bonus;
            max_range = (if s_blow_active tgt then 8000 else act_max_range pcfg)
        in if rng > max_range then None
           else
             let snr = base - (rng / 1000) * 2 - (s_depth tgt / 200)
                       - weather_loss cfg clouds rng (s_x obs) (s_y obs) (s_depth obs)
                           (s_x tgt) (s_y tgt) (s_depth tgt)
             in if snr < 5 then None else Some (snr, rng))"

text \<open>\<open>for tgt in subs: ... break\<close>: the first target that passes, if any.\<close>

fun first_sub_target ::
  "game_cfg \<Rightarrow> cloud list \<Rightarrow> real \<Rightarrow> SubModel \<Rightarrow> SubModel list \<Rightarrow>
   (SubModel \<times> real \<times> real) option" where
  "first_sub_target cfg clouds now obs [] = None"
| "first_sub_target cfg clouds now obs (tgt # rest) =
     (case sub_target_check cfg clouds now obs tgt of
        None \<Rightarrow> first_sub_target cfg clouds now obs rest
      | Some (snr, rng) \<Rightarrow> Some (tgt, snr, rng))"

text \<open>The same for \<open>for torp in torps\<close> of a submarine observer.\<close>

definition torp_target_check ::
  "game_cfg \<Rightarrow> cloud list \<Rightarrow> SubModel \<Rightarrow> TorpedoModel \<Rightarrow> (real \<times> real) option" where
  "torp_target_check cfg clouds obs torp =
     (if t_owner_id torp = s_owner_id obs then None
      else
        let pcfg = cfg_sonar cfg;
            torp_noise = pas_speed_noise_gain pcfg
                           * (t_speed torp / torp_speed (cfg_torpedo cfg)) * 2;
            base = pas_base_snr pcfg * (12 / 10) + torp_noise;
            rng = distance (s_x obs) (s_y obs) (t_x torp) (t_y torp)
        in if rng > act_max_range pcfg * (8 / 10) then None
           else
             let snr = base - (rng / 1000) * (25 / 10) - (t_depth torp / 200)
                       - weather_loss cfg clouds rng (s_x obs) (s_y obs) (s_depth obs)
                           (t_x torp) (t_y torp) (t_depth torp)
             in if snr < 4 then None else Some (snr, rng))"

fun first_torp_target ::
  "game_cfg \<Rightarrow> cloud list \<Rightarrow> SubModel \<Rightarrow> TorpedoModel list \<Rightarrow>
   (TorpedoModel \<times> real \<times> real) option" where
  "first_torp_target cfg clouds obs [] = None"
| "first_torp_target cfg clouds obs (torp # rest) =
     (case torp_target_check cfg clouds obs torp of
        None \<Rightarrow> first_torp_target cfg clouds obs rest
      | Some (snr, rng) \<Rightarrow> Some (torp, snr, rng))"

text \<open>The random draws one observer consumes: the report interval and the two jitters.\<close>

record obs_draws =
  od_interval :: real
  od_jitter_sub :: real
  od_jitter_torp :: real

text \<open>
  "Check submarines": the first inner loop of an observer, with the observer as the loop
  leaves it and the event it appends, if any.
\<close>

definition check_submarines ::
  "game_cfg \<Rightarrow> cloud list \<Rightarrow> real \<Rightarrow> SubModel list \<Rightarrow> obs_draws \<Rightarrow> SubModel \<Rightarrow>
   SubModel \<times> pending_events" where
  "check_submarines cfg clouds now subs dr obs =
     (let pcfg = cfg_sonar cfg in
      case first_sub_target cfg clouds now obs subs of
        None \<Rightarrow> (obs, [])
      | Some (tgt, snr, rng) \<Rightarrow>
          let brg0 = atan2 (s_y tgt - s_y obs) (s_x tgt - s_x obs);
              jitter = radians (if s_depth tgt < 50 then pas_bearing_jitter_deg pcfg else 1);
              brg = wrap_angle (brg0 + uniform (- jitter) jitter (od_jitter_sub dr));
              rel = wrap_angle (brg - s_heading obs);
              rc = (if rng < 1200 then ''short''
                    else if rng < 3000 then ''medium'' else ''long'');
              contact_type = (if s_blow_active tgt then ''emergency_blow'' else ''submarine'')
          in (obs\<lparr>s_last_report := now\<rparr>,
              [(s_owner_id obs,
                Contact \<lparr> pc_type = ''passive'', pc_observer = s_id obs,
                          pc_bearing = brg, pc_bearing_relative = rel,
                          pc_range_class = rc, pc_snr = snr,
                          pc_contact_type = contact_type, pc_time = now \<rparr>)]))"

text \<open>"Check torpedoes": the second inner loop of the same observer.\<close>

definition check_torpedoes ::
  "game_cfg \<Rightarrow> cloud list \<Rightarrow> real \<Rightarrow> TorpedoModel list \<Rightarrow> obs_draws \<Rightarrow> SubModel \<Rightarrow>
   SubModel \<times> pending_events" where
  "check_torpedoes cfg clouds now torps dr obs =
     (let pcfg = cfg_sonar cfg in
      case first_torp_target cfg clouds obs torps of
        None \<Rightarrow> (obs, [])
      | Some (torp, snr, rng) \<Rightarrow>
          let brg0 = atan2 (t_y torp - s_y obs) (t_x torp - s_x obs);
              jitter = radians (pas_bearing_jitter_deg pcfg * (12 / 10));
              brg = wrap_angle (brg0 + uniform (- jitter) jitter (od_jitter_torp dr));
              rel = wrap_angle (brg - s_heading obs);
              rc = (if rng < 1000 then ''short''
                    else if rng < 2500 then ''medium'' else ''long'')
          in (obs\<lparr>s_last_report := now\<rparr>,
              [(s_owner_id obs,
                Contact \<lparr> pc_type = ''passive'', pc_observer = s_id obs,
                          pc_bearing = brg, pc_bearing_relative = rel,
                          pc_range_class = rc, pc_snr = snr,
                          pc_contact_type = ''torpedo'', pc_time = now \<rparr>)]))"

text \<open>
  The body of \<open>for obs in subs\<close>: the report-interval gate, then the two inner loops one
  after the other. It returns the observer as the body leaves it and the events it
  appends to \<open>pending_events\<close>. \<open>subs\<close> is the list as it stands at that iteration.
\<close>

definition observe ::
  "game_cfg \<Rightarrow> cloud list \<Rightarrow> real \<Rightarrow> SubModel list \<Rightarrow> TorpedoModel list \<Rightarrow> obs_draws \<Rightarrow>
   SubModel \<Rightarrow> SubModel \<times> pending_events" where
  "observe cfg clouds now subs torps dr obs =
     (let pcfg = cfg_sonar cfg in
      if now - s_last_report obs
           < uniform (fst (pas_report_interval_s pcfg)) (snd (pas_report_interval_s pcfg))
               (od_interval dr)
      then (obs, [])
      else
        let r1 = check_submarines cfg clouds now subs dr obs;
            r2 = check_torpedoes cfg clouds now torps dr (fst r1)
        in (fst r2, snd r1 @ snd r2))"

text \<open>
  The loop \<open>for obs in subs\<close>. It mutates the observers in place, so the \<open>i\<close>-th
  iteration reads and writes the list as the earlier iterations left it.
\<close>

definition observe_at ::
  "game_cfg \<Rightarrow> cloud list \<Rightarrow> real \<Rightarrow> TorpedoModel list \<Rightarrow> (nat \<Rightarrow> obs_draws) \<Rightarrow>
   SubModel list \<times> pending_events \<Rightarrow> nat \<Rightarrow> SubModel list \<times> pending_events" where
  "observe_at cfg clouds now torps draws st i =
     (let r = observe cfg clouds now (fst st) torps (draws i) (fst st ! i)
      in ((fst st)[i := fst r], snd st @ snd r))"

definition passive_sub_observers ::
  "game_cfg \<Rightarrow> cloud list \<Rightarrow> real \<Rightarrow> SubModel list \<Rightarrow> TorpedoModel list \<Rightarrow>
   pending_events \<Rightarrow> (nat \<Rightarrow> obs_draws) \<Rightarrow> SubModel list \<times> pending_events" where
  "passive_sub_observers cfg clouds now subs torps pending_events draws =
     foldl (observe_at cfg clouds now torps draws) (subs, pending_events) [0..<length subs]"

text \<open>
  Torpedo observers ("Process torpedo passive sonar"). One pass of \<open>for tgt in subs\<close>:
  \<open>None\<close> for \<open>continue\<close>, otherwise \<open>snr\<close>, \<open>rng\<close> and the true bearing.
\<close>

definition torp_observer_check ::
  "game_cfg \<Rightarrow> cloud list \<Rightarrow> TorpedoModel \<Rightarrow> SubModel \<Rightarrow> (real \<times> real \<times> real) option" where
  "torp_observer_check cfg clouds torp tgt =
     (if s_owner_id tgt = t_owner_id torp then None
      else
        let pcfg = cfg_sonar cfg;
            rng = distance (t_x torp) (t_y torp) (s_x tgt) (s_y tgt)
        in if rng > tsp_max_range (cfg_torpedo cfg) then None
           else
             let brg = atan2 (s_y tgt - t_y torp) (s_x tgt - t_x torp);
                 rel_bearing = wrap_angle (brg - t_heading torp)
             in if \<bar>rel_bearing\<bar> > radians 105 then None
                else
                  let speed_noise = pas_speed_noise_gain pcfg
                                      * (s_speed tgt / sub_max_speed (cfg_sub cfg));
                      snorkel_bonus = (if s_is_snorkeling tgt then pas_snorkel_bonus pcfg else 0);
                      blow_bonus = (if s_blow_active tgt then 25 else 0);
                      base_snr = pas_base_snr pcfg + speed_noise + snorkel_bonus + blow_bonus;
                      snr = base_snr - (rng / 1000) * 2 - (s_depth tgt / 200)
                            - weather_loss cfg clouds rng (t_x torp) (t_y torp) (t_depth torp)
                                (s_x tgt) (s_y tgt) (s_depth tgt)
                  in if snr < 3 then None else Some (snr, rng, brg))"

fun first_torp_observer_target ::
  "game_cfg \<Rightarrow> cloud list \<Rightarrow> TorpedoModel \<Rightarrow> SubModel list \<Rightarrow>
   (SubModel \<times> real \<times> real \<times> real) option" where
  "first_torp_observer_target cfg clouds torp [] = None"
| "first_torp_observer_target cfg clouds torp (tgt # rest) =
     (case torp_observer_check cfg clouds torp tgt of
        None \<Rightarrow> first_torp_observer_target cfg clouds torp rest
      | Some r \<Rightarrow> Some (tgt, r))"

text \<open>The body of \<open>for torp in torps\<close>; \<open>dr\<close> is the interval draw and the jitter draw.\<close>

definition torp_observe ::
  "game_cfg \<Rightarrow> cloud list \<Rightarrow> real \<Rightarrow> SubModel list \<Rightarrow> real \<times> real \<Rightarrow> TorpedoModel \<Rightarrow>
   TorpedoModel \<times> pending_events" where
  "torp_observe cfg clouds now subs dr torp =
     (let tcfg = cfg_torpedo cfg in
      if \<not> t_passive_sonar_active torp then (torp, [])
      else if now - t_last_sonar_contact torp
                < uniform (fst (tsp_report_interval_s tcfg)) (snd (tsp_report_interval_s tcfg))
                    (fst dr)
        then (torp, [])
      else
        (case first_torp_observer_target cfg clouds torp subs of
           None \<Rightarrow> (torp, [])
         | Some (tgt, snr, rng, brg0) \<Rightarrow>
             let jitter = radians (tsp_bearing_jitter_deg tcfg);
                 brg = wrap_angle (brg0 + uniform (- jitter) jitter (snd dr))
             in (torp\<lparr>t_passive_sonar_bearing := brg, t_last_sonar_contact := now\<rparr>,
                 [(t_owner_id torp,
                   TorpedoContact
                     \<lparr> pc_type = ''passive'', pc_observer = t_id torp, pc_bearing = brg,
                       pc_bearing_relative = wrap_angle (brg - t_heading torp),
                       pc_range_class = (if rng < 800 then ''short''
                                         else if rng < 1500 then ''medium'' else ''long''),
                       pc_snr = snr, pc_contact_type = ''submarine'', pc_time = now \<rparr>)])))"

fun passive_torp_observers ::
  "game_cfg \<Rightarrow> cloud list \<Rightarrow> real \<Rightarrow> SubModel list \<Rightarrow> (nat \<Rightarrow> real \<times> real) \<Rightarrow> nat \<Rightarrow>
   TorpedoModel list \<Rightarrow> TorpedoModel list \<times> pending_events" where
  "passive_torp_observers cfg clouds now subs draws i [] = ([], [])"
| "passive_torp_observers cfg clouds now subs draws i (torp # ts) =
     (let r = torp_observe cfg clouds now subs (draws i) torp;
          rs = passive_torp_observers cfg clouds now subs draws (Suc i) ts
      in (fst r # fst rs, snd r @ snd rs))"

text \<open>
  \<open>schedule_passive_contacts\<close>: its two passive stages in order. Its last loop, the
  torpedoes' automatic active ping, queues \<open>torpedo_ping\<close> events and writes torpedo
  fields only; it is not modelled.
\<close>

definition schedule_passive_contacts ::
  "game_cfg \<Rightarrow> cloud list \<Rightarrow> real \<Rightarrow> SubModel list \<Rightarrow> TorpedoModel list \<Rightarrow> pending_events \<Rightarrow>
   (nat \<Rightarrow> obs_draws) \<Rightarrow> (nat \<Rightarrow> real \<times> real) \<Rightarrow>
   SubModel list \<times> TorpedoModel list \<times> pending_events" where
  "schedule_passive_contacts cfg clouds now subs torps pending_events sdraws tdraws =
     (let r1 = passive_sub_observers cfg clouds now subs torps pending_events sdraws;
          r2 = passive_torp_observers cfg clouds now (fst r1) tdraws 0 torps
      in (fst r1, fst r2, snd r1 @ snd r2))"


subsection \<open>Notions used in the statements about passive contacts\<close>

text \<open>A queued event is a \<open>contact\<close> whose \<open>contact_type\<close> is \<open>"torpedo"\<close>.\<close>

definition torpedo_contact_ev :: "int \<times> event \<Rightarrow> bool" where
  "torpedo_contact_ev e =
     (case snd e of Contact c \<Rightarrow> pc_contact_type c = ''torpedo'' | _ \<Rightarrow> False)"

text \<open>A queued event is a \<open>contact\<close> on a submarine (\<open>"submarine"\<close> or \<open>"emergency_blow"\<close>).\<close>

definition submarine_contact_ev :: "int \<times> event \<Rightarrow> bool" where
  "submarine_contact_ev e =
     (case snd e of Contact c \<Rightarrow> pc_contact_type c \<noteq> ''torpedo'' | _ \<Rightarrow> False)"

text \<open>A queued event is a \<open>contact\<close> that names the given observer.\<close>

definition contact_from :: "string \<Rightarrow> int \<times> event \<Rightarrow> bool" where
  "contact_from sid e = (case snd e of Contact c \<Rightarrow> pc_observer c = sid | _ \<Rightarrow> False)"

text \<open>Addressee, observer and contact type of a queued contact event.\<close>

definition contact_brief :: "int \<times> event \<Rightarrow> int \<times> string \<times> string" where
  "contact_brief e =
     (case snd e of
        Contact c \<Rightarrow> (fst e, pc_observer c, pc_contact_type c)
      | TorpedoContact c \<Rightarrow> (fst e, pc_observer c, pc_contact_type c)
      | _ \<Rightarrow> (fst e, [], []))"

text \<open>
  What one pass of the observer loop over \<open>obs\<close> may queue and do to the observer: at
  most one contact on a submarine and at most one on a torpedo (so at most two events),
  each naming \<open>obs\<close> and addressed to its owner; \<open>last_report\<close> set to the tick time if
  anything was queued; no other field of the observer changed.
\<close>

definition observer_quota :: "SubModel \<Rightarrow> real \<Rightarrow> SubModel \<Rightarrow> pending_events \<Rightarrow> bool" where
  "observer_quota obs now obs' evs \<longleftrightarrow>
     length evs \<le> 2 \<and>
     length (filter submarine_contact_ev evs) \<le> 1 \<and>
     length (filter torpedo_contact_ev evs) \<le> 1 \<and>
     list_all (\<lambda>e. contact_from (s_id obs) e \<and> fst e = s_owner_id obs \<and>
                    (submarine_contact_ev e \<or> torpedo_contact_ev e)) evs \<and>
     (evs \<noteq> [] \<longrightarrow> s_last_report obs' = now) \<and>
     obs' = obs\<lparr>s_last_report := s_last_report obs'\<rparr>"


subsection \<open>Submarine physics\<close>

text \<open>
  \<open>update_sub\<close>, in the order of the source and cut at its section comments into four
  parts. \<open>update_sub_steering\<close>: rudder servo, heading (auto-steering or manual rudder)
  and planes.
\<close>

definition update_sub_steering :: "game_cfg \<Rightarrow> real \<Rightarrow> SubModel \<Rightarrow> SubModel" where
  "update_sub_steering cfg dt s =
     (let scfg = cfg_sub cfg;
          yaw_rate_rad = radians (sub_yaw_rate_deg_s scfg);
          pitch_rate = radians (sub_pitch_rate_deg_s scfg);
          planes_eff = sub_planes_effect scfg;
          MAX_RUDDER_RAD = radians (sub_max_rudder_deg scfg);
          MAX_RUDDER_STEP = radians (sub_rudder_rate_deg_s scfg) * dt;
          rudder_cmd = clamp (case s_rudder_cmd s of None \<Rightarrow> 0 | Some c \<Rightarrow> c) (- 1) 1;
          target_rudder_angle = rudder_cmd * MAX_RUDDER_RAD;
          angle0 = (case s_rudder_angle s of None \<Rightarrow> 0 | Some a \<Rightarrow> a);
          rudder_angle =
            (if s_battery s > 0 then
               let error = target_rudder_angle - angle0;
                   angle1 = angle0 + clamp error (- MAX_RUDDER_STEP) MAX_RUDDER_STEP
               in clamp angle1 (- MAX_RUDDER_RAD) MAX_RUDDER_RAD
             else angle0);
          s1 = s\<lparr>s_rudder_cmd := Some rudder_cmd, s_rudder_angle := Some rudder_angle\<rparr>;
          s2 =
            (case s_target_heading s1 of
               Some target_heading \<Rightarrow>
                 let heading_error = wrap_angle (target_heading - s_heading s1);
                     max_turn_rate = radians (sub_yaw_rate_deg_s scfg);
                     turn_rate = clamp (heading_error * (5 / 10)) (- max_turn_rate) max_turn_rate;
                     s1a = s1\<lparr>s_heading := wrap_angle (s_heading s1 + turn_rate * dt)\<rparr>
                 in if \<bar>heading_error\<bar> < radians 2 then s1a\<lparr>s_target_heading := None\<rparr>
                    else s1a
             | None \<Rightarrow>
                 let rudder_frac = (if MAX_RUDDER_RAD = 0 then 0
                                    else rudder_angle / MAX_RUDDER_RAD)
                 in s1\<lparr>s_heading := wrap_angle (s_heading s1 + yaw_rate_rad * rudder_frac * dt)\<rparr>);
          target_pitch = clamp (s_planes s2 * planes_eff) (- 1) 1 * radians 30
      in if s_battery s2 > 0
         then s2\<lparr>s_pitch := s_pitch s2
                     + clamp (target_pitch - s_pitch s2) (- pitch_rate * dt) (pitch_rate * dt)\<rparr>
         else s2)"

text \<open>
  \<open>max_spd\<close> as \<open>update_sub\<close> uses it from the speed section on: \<open>max_speed\<close>, cut to 75%
  while snorkeling (the flag as it stands when the speed section runs).
\<close>

definition max_spd_of :: "game_cfg \<Rightarrow> SubModel \<Rightarrow> real" where
  "max_spd_of cfg s =
     (if s_is_snorkeling s then sub_max_speed (cfg_sub cfg) * (75 / 100)
      else sub_max_speed (cfg_sub cfg))"

text \<open>
  \<open>update_sub_motion\<close>: speed, the dead-battery reset, vertical dynamics with emergency
  blow and depth-hold autopilot, lift, and the integration of depth and position.
\<close>

definition update_sub_motion :: "game_cfg \<Rightarrow> real \<Rightarrow> real \<Rightarrow> SubModel \<Rightarrow> SubModel" where
  "update_sub_motion cfg dt now s =
     (let scfg = cfg_sub cfg;
          pitch_rate = radians (sub_pitch_rate_deg_s scfg);
          neutral = sub_neutral_bias scfg;
          max_spd = max_spd_of cfg s;
          acceleration = sub_acceleration scfg;
          target_speed = (if s_battery s \<le> 0 \<or> s_refuel_active s then 0
                          else clamp (s_throttle s) 0 1 * max_spd);
          speed_diff = target_speed - s_speed s;
          max_change = acceleration * dt;
          s1 = s\<lparr>s_speed := s_speed s + clamp speed_diff (- max_change) max_change\<rparr>;
          s2 = (if s_battery s1 \<le> 0 \<and> \<not> s_blow_active s1
                then s1\<lparr>s_target_depth := None, s_planes := 0\<rparr> else s1);
          v_down0 = neutral * (1 - s_throttle s2);
          min_control_speed = 2;
          v_down1 = (if s_speed s2 < min_control_speed then
                       let speed_factor = s_speed s2 / min_control_speed;
                           sink_rate = (1 - speed_factor) * (8 / 10)
                       in v_down0 + sink_rate
                     else v_down0);
          blowing = (s_blow_active s2 \<and> now < s_blow_end s2 \<and> s_blow_charge s2 > 0);
          v_down2 = (if blowing then v_down1 - eb_upward_mps scfg else v_down1);
          s3 = (if blowing
                then s2\<lparr>s_blow_charge := clamp (s_blow_charge s2 - dt / eb_duration_s scfg) 0 1\<rparr>
                else s2\<lparr>s_blow_active := False\<rparr>);
          autopilot_on = (s_target_depth s3 \<noteq> None \<and> \<bar>s_planes s3\<bar> < 5 / 100);
          err_m = (case s_target_depth s3 of None \<Rightarrow> 0 | Some td \<Rightarrow> td - s_depth s3);
          s4 = (if autopilot_on then
                  let ap_pitch = clamp (- err_m * radians (5 / 10)) (- radians 30) (radians 30)
                  in s3\<lparr>s_pitch := s_pitch s3
                              + clamp (ap_pitch - s_pitch s3) (- pitch_rate * dt) (pitch_rate * dt)\<rparr>
                else s3);
          v_down3 = (if autopilot_on then v_down2 + clamp (err_m * (2 / 100)) (- (15 / 10)) (15 / 10)
                     else v_down2);
          LIFT = 45 / 100;
          v_down = v_down3 - sin (s_pitch s4) * max 0 (s_speed s4) * LIFT;
          s5 = s4\<lparr>s_depth := max 0 (s_depth s4 + v_down * dt)\<rparr>
      in s5\<lparr>s_x := s_x s5 + cos (s_heading s5) * s_speed s5 * dt,
            s_y := s_y s5 + sin (s_heading s5) * s_speed s5 * dt\<rparr>)"

text \<open>
  \<open>update_sub_power\<close>: battery drain, snorkel recharge from diesel fuel, recharge of the
  blow system, and the snorkel's automatic switch-off. \<open>max_spd\<close> is the value the speed
  section computed.
\<close>

definition update_sub_power :: "game_cfg \<Rightarrow> real \<Rightarrow> real \<Rightarrow> SubModel \<Rightarrow> SubModel" where
  "update_sub_power cfg dt max_spd s =
     (let scfg = cfg_sub cfg;
          speed_ratio = s_speed s / max_spd;
          drain_multiplier =
            (if speed_ratio > 5 / 10 then
               let high_speed_mult = bat_high_speed_multiplier scfg;
                   excess_speed = speed_ratio - 5 / 10
               in 1 + (excess_speed * 2) ^ 2 * high_speed_mult
             else 1);
          s1 = (if s_refuel_active s then s\<lparr>s_throttle := 0\<rparr> else s);
          battery_drain = (if s_refuel_active s then 0
                           else s_throttle s * bat_drain_per_throttle_per_s scfg
                                  * drain_multiplier * dt);
          s2 = s1\<lparr>s_battery := max 0 (min 100 (s_battery s1 - battery_drain))\<rparr>;
          snorkel_depth = sub_snorkel_depth scfg;
          off_hyst = sub_snorkel_off_hysteresis scfg;
          s3 =
            (if s_is_snorkeling s2 \<and> s_depth s2 \<le> snorkel_depth then
               let recharge_rate = bat_recharge_per_s_snorkel scfg;
                   has_fuel = (s_fuel s2 > 0);
                   s2a =
                     (if recharge_rate > 0 \<and> has_fuel then
                        let potential = recharge_rate * dt;
                            headroom = 100 - s_battery s2;
                            delta = min potential (min (s_fuel s2) headroom)
                        in if delta > 0
                           then s2\<lparr>s_battery := clamp (s_battery s2 + delta) 0 100,
                                   s_fuel := max 0 (s_fuel s2 - delta)\<rparr>
                           else s2
                      else s2)
               in if has_fuel
                  then s2a\<lparr>s_blow_charge :=
                             clamp (s_blow_charge s2a + eb_recharge_per_s_at_snorkel scfg * dt) 0 1\<rparr>
                  else s2a
             else s2)
      in if \<not> s_refuel_active s3 \<and> s_is_snorkeling s3 \<and> s_depth s3 > snorkel_depth + off_hyst
         then s3\<lparr>s_is_snorkeling := False\<rparr> else s3)"

text \<open>
  \<open>update_sub_damage\<close>: mooring while refuelling, else crush damage; then damage from
  hazard clouds outside the ring.
\<close>

definition update_sub_damage :: "game_cfg \<Rightarrow> cloud list \<Rightarrow> real \<Rightarrow> SubModel \<Rightarrow> SubModel" where
  "update_sub_damage cfg clouds dt s =
     (let scfg = cfg_sub cfg;
          crush_depth = sub_crush_depth scfg;
          crush_dps = sub_crush_dps_per_100m scfg;
          snorkel_depth = sub_snorkel_depth scfg;
          s1 = (if s_refuel_active s then s\<lparr>s_depth := max 0 snorkel_depth\<rparr>
                else if s_depth s > crush_depth then
                  let over = s_depth s - crush_depth;
                      dps = (over / 100) * crush_dps
                  in s\<lparr>s_health := max 0 (s_health s - dps * dt)\<rparr>
                else s)
      in if is_outside_ring cfg (s_x s1) (s_y s1) then
           let cloud_dps = weather_cloud_damage cfg clouds (s_x s1) (s_y s1) (s_depth s1)
           in if cloud_dps > 0 then s1\<lparr>s_health := max 0 (s_health s1 - cloud_dps * dt)\<rparr>
              else s1
         else s1)"

definition update_sub :: "game_cfg \<Rightarrow> cloud list \<Rightarrow> SubModel \<Rightarrow> real \<Rightarrow> real \<Rightarrow> SubModel" where
  "update_sub cfg clouds s dt now =
     (let s1 = update_sub_steering cfg dt s;
          max_spd = max_spd_of cfg s1;
          s2 = update_sub_motion cfg dt now s1;
          s3 = update_sub_power cfg dt max_spd s2
      in update_sub_damage cfg clouds dt s3)"

subsection \<open>Refuelling\<close>

text \<open>
  "Find the bound fueler within 50m (3D)": the index of the nearest eligible fueler and
  its distance. \<open>s.refuel_fueler_id\<close> is falsy when it is \<open>None\<close> or empty.
\<close>

fun bound_fueler_loop ::
  "FuelerModel list \<Rightarrow> nat \<Rightarrow> SubModel \<Rightarrow> (nat \<times> real) option \<Rightarrow> (nat \<times> real) option" where
  "bound_fueler_loop [] i s nearest = nearest"
| "bound_fueler_loop (f # fs) i s nearest =
     (if (case s_refuel_fueler_id s of None \<Rightarrow> False | Some fid \<Rightarrow> fid \<noteq> [] \<and> f_id f \<noteq> fid)
        then bound_fueler_loop fs (Suc i) s nearest
      else if f_fuel f \<le> 0 then bound_fueler_loop fs (Suc i) s nearest
      else
        let d = distance3d (s_x s) (s_y s) (s_depth s) (f_x f) (f_y f) (f_depth f) in
        if d \<le> 50 \<and> (case nearest of None \<Rightarrow> True | Some (k, nearest_d) \<Rightarrow> d < nearest_d)
          then bound_fueler_loop fs (Suc i) s (Some (i, d))
        else bound_fueler_loop fs (Suc i) s nearest)"

text \<open>"Stop refuelling": the three assignments every cancelling branch makes.\<close>

definition cancel_refuel :: "SubModel \<Rightarrow> SubModel" where
  "cancel_refuel s = s\<lparr>s_refuel_timer := 0, s_refuel_active := False, s_refuel_fueler_id := None\<rparr>"

text \<open>
  The body of \<open>for s in subs\<close> in \<open>process_refueling_mem\<close>. The fuelers are objects
  mutated in place, so the list is threaded through.
\<close>

definition refuel_one ::
  "game_cfg \<Rightarrow> real \<Rightarrow> real \<Rightarrow> SubModel \<Rightarrow> FuelerModel list \<Rightarrow> SubModel \<times> FuelerModel list" where
  "refuel_one cfg dt now s fuelers =
     (let scfg = cfg_sub cfg;
          max_fuel_capacity = bat_max_fuel_capacity scfg;
          snorkel_depth = sub_snorkel_depth scfg
      in if \<not> s_refuel_active s then (s\<lparr>s_refuel_timer := 0\<rparr>, fuelers)
         else if s_fuel s \<ge> max_fuel_capacity then (cancel_refuel s, fuelers)
         else if \<not> s_is_snorkeling s \<or> s_depth s > snorkel_depth + 5 / 10
           then (cancel_refuel s, fuelers)
         else
           (case bound_fueler_loop fuelers 0 s None of
              None \<Rightarrow> (cancel_refuel s, fuelers)
            | Some (k, nearest_d) \<Rightarrow>
                let s1 = s\<lparr>s_refuel_timer := s_refuel_timer s + dt\<rparr> in
                if s_refuel_timer s1 < 120 then (s1, fuelers)
                else
                  let nearest = fuelers ! k;
                      available = f_fuel nearest;
                      sub_space = max 0 (max_fuel_capacity - s_fuel s1);
                      refuel_rate = bat_refuel_rate_per_s scfg;
                      amount = (if refuel_rate \<le> 0 then min available sub_space
                                else min (refuel_rate * dt) (min available sub_space));
                      transfer = (available > 0 \<and> sub_space > 0 \<and> amount > 0);
                      s2 = (if transfer then s1\<lparr>s_fuel := s_fuel s1 + amount\<rparr> else s1);
                      nearest1 =
                        (if transfer then
                           let n1 = nearest\<lparr>f_fuel := available - amount\<rparr>;
                               n2 = (if f_empty_since n1 = None
                                     then n1\<lparr>f_empty_since := Some now\<rparr> else n1)
                           in if f_fuel n2 \<le> 0 then n2\<lparr>f_fuel := 0\<rparr> else n2
                         else nearest);
                      fuelers1 = fuelers[k := nearest1]
                  in if s_fuel s2 \<ge> max_fuel_capacity \<or> f_fuel nearest1 \<le> 0
                     then (cancel_refuel s2, fuelers1)
                     else (s2, fuelers1)))"

fun refuel_loop ::
  "game_cfg \<Rightarrow> real \<Rightarrow> real \<Rightarrow> SubModel list \<Rightarrow> FuelerModel list \<Rightarrow>
   SubModel list \<times> FuelerModel list" where
  "refuel_loop cfg dt now [] fuelers = ([], fuelers)"
| "refuel_loop cfg dt now (s # ss) fuelers =
     (let r = refuel_one cfg dt now s fuelers;
          rs = refuel_loop cfg dt now ss (snd r)
      in (fst r # fst rs, snd rs))"

definition process_refueling_mem ::
  "game_cfg \<Rightarrow> real \<Rightarrow> SubModel list \<Rightarrow> FuelerModel list \<Rightarrow> real \<Rightarrow>
   SubModel list \<times> FuelerModel list" where
  "process_refueling_mem cfg now subs fuelers dt =
     (if fuelers = [] then (map (\<lambda>s. s\<lparr>s_refuel_timer := 0\<rparr>) subs, fuelers)
      else refuel_loop cfg dt now subs fuelers)"

subsection \<open>The tick\<close>

text \<open>
  One iteration of \<open>game_loop\<close>, as far as it concerns the submarines. \<open>elapsed\<close> is
  \<open>loop_start - last_ts\<close>. \<open>clouds\<close> is the weather field after
  \<open>ensure_dynamic_weather_clouds\<close> and \<open>torps\<close> the torpedoes as \<open>update_torpedo\<close> and
  \<open>process_wire_links_mem\<close> leave them (neither touches a submarine; they are not
  modelled). The loop skips submarines whose health is 0, adds the survival score to the
  others and updates them; then come refuelling, explosions and passive sonar. The
  commit deletes the submarines that were dead when the tick began.
\<close>

definition tick_sub :: "game_cfg \<Rightarrow> cloud list \<Rightarrow> real \<Rightarrow> real \<Rightarrow> SubModel \<Rightarrow> SubModel" where
  "tick_sub cfg clouds dt loop_start s =
     (if s_health s \<le> 0 then s
      else
        let base_rate = 1;
            multiplier = 1 + (5 / 10) * of_int (max 0 (s_kills s));
            s1 = s\<lparr>s_score := s_score s + base_rate * multiplier * dt\<rparr>
        in update_sub cfg clouds s1 dt loop_start)"

definition game_loop_tick ::
  "game_cfg \<Rightarrow> cloud list \<Rightarrow> real \<Rightarrow> real \<Rightarrow> SubModel list \<Rightarrow> TorpedoModel list \<Rightarrow>
   FuelerModel list \<Rightarrow> (nat \<Rightarrow> obs_draws) \<Rightarrow> (nat \<Rightarrow> real \<times> real) \<Rightarrow>
   SubModel list \<times> TorpedoModel list \<times> FuelerModel list \<times> pending_events" where
  "game_loop_tick cfg clouds elapsed loop_start subs torps fuelers sdraws tdraws =
     (let dt = max 0 (min elapsed (25 / 100));
          dead_sub_ids = set (map s_id (filter (\<lambda>s. s_health s \<le> 0) subs));
          subs1 = map (tick_sub cfg clouds dt loop_start) subs;
          r2 = process_refueling_mem cfg loop_start subs1 fuelers dt;
          r3 = process_explosions_mem cfg loop_start torps (fst r2) [];
          r4 = schedule_passive_contacts cfg clouds loop_start (fst (snd r3)) (fst r3)
                 (snd (snd r3)) sdraws tdraws;
          survivors = filter (\<lambda>s. s_id s \<notin> dead_sub_ids) (fst r4);
          torps_left = filter (\<lambda>t. \<not> (t_delete t \<or> t_expired t)) (fst (snd r4))
      in (survivors, torps_left, snd r2, snd (snd r4)))"


subsection \<open>Resource bounds and the steps of the system\<close>

text \<open>The bounds of the data model on one submarine.\<close>

definition sub_ok :: "game_cfg \<Rightarrow> SubModel \<Rightarrow> bool" where
  "sub_ok cfg s \<longleftrightarrow>
     0 \<le> s_battery s \<and> s_battery s \<le> 100 \<and>
     0 \<le> s_fuel s \<and> s_fuel s \<le> bat_max_fuel_capacity (cfg_sub cfg) \<and>
     0 \<le> s_torpedo_ammo s \<and> s_torpedo_ammo s \<le> torp_magazine_size (cfg_torpedo cfg) \<and>
     0 \<le> s_blow_charge s \<and> s_blow_charge s \<le> 1 \<and>
     0 \<le> s_health s \<and> s_health s \<le> 100"

text \<open>
  What the bounds need of the configuration: an initial battery range inside
  \<open>[0, 100]\<close>, a fuel capacity that holds the \<open>fuel\<close> column's default of 1000, a magazine
  size and a crush rate that are not negative, and non-zero divisors in \<open>update_sub\<close>.
  \<open>DEFAULT_CFG\<close> meets it.
\<close>

definition cfg_ok :: "game_cfg \<Rightarrow> bool" where
  "cfg_ok cfg \<longleftrightarrow>
     0 \<le> bat_initial_min (cfg_sub cfg) \<and>
     bat_initial_min (cfg_sub cfg) \<le> bat_initial_max (cfg_sub cfg) \<and>
     bat_initial_max (cfg_sub cfg) \<le> 100 \<and>
     1000 \<le> bat_max_fuel_capacity (cfg_sub cfg) \<and>
     0 \<le> torp_magazine_size (cfg_torpedo cfg) \<and>
     0 \<le> sub_crush_dps_per_100m (cfg_sub cfg) \<and>
     0 < sub_max_speed (cfg_sub cfg) \<and>
     0 < eb_duration_s (cfg_sub cfg)"

text \<open>
  One step of the system on the \<open>SubModel\<close> table: a successful call of a handler that
  writes a submarine row (on the row of any submarine, with any arguments), a
  registration (with a battery draw in \<open>[0, 1)\<close>), a command detonation, or one tick of
  the game loop (with any torpedoes, fuelers, weather, clock and draws). Handlers that
  fail commit nothing.
\<close>

inductive world_step :: "game_cfg \<Rightarrow> SubModel list \<Rightarrow> SubModel list \<Rightarrow> bool" for cfg where
  step_register:
    "register_sub cfg u subs urow now draws new_id = Inr s \<Longrightarrow>
     0 \<le> rd_battery draws \<Longrightarrow> rd_battery draws < 1 \<Longrightarrow>
     world_step cfg subs (subs @ [s])"
| step_control:
    "i < length subs \<Longrightarrow> control cfg u (Some (subs ! i)) d = Inr s \<Longrightarrow>
     world_step cfg subs (subs[i := s])"
| step_snorkel:
    "i < length subs \<Longrightarrow> snorkel cfg u (Some (subs ! i)) tg sw = Inr s \<Longrightarrow>
     world_step cfg subs (subs[i := s])"
| step_emergency_blow:
    "i < length subs \<Longrightarrow> emergency_blow cfg u (Some (subs ! i)) now = Inr s \<Longrightarrow>
     world_step cfg subs (subs[i := s])"
| step_launch_torpedo:
    "i < length subs \<Longrightarrow> launch_torpedo cfg u (Some (subs ! i)) rng now tid = Inr (s, t, lr) \<Longrightarrow>
     world_step cfg subs (subs[i := s])"
| step_reload_torpedoes:
    "i < length subs \<Longrightarrow> reload_torpedoes cfg u (Some (subs ! i)) cnt = Inr (s, rr) \<Longrightarrow>
     world_step cfg subs (subs[i := s])"
| step_set_sub_heading:
    "i < length subs \<Longrightarrow> set_sub_heading u (Some (subs ! i)) hdg = Inr (s, hr) \<Longrightarrow>
     world_step cfg subs (subs[i := s])"
| step_turn_sub:
    "i < length subs \<Longrightarrow> turn_sub u (Some (subs ! i)) td = Inr (s, hr) \<Longrightarrow>
     world_step cfg subs (subs[i := s])"
| step_set_passive_array:
    "i < length subs \<Longrightarrow> set_passive_array u (Some (subs ! i)) dd = Inr s \<Longrightarrow>
     world_step cfg subs (subs[i := s])"
| step_ping:
    "i < length subs \<Longrightarrow> ping_request cfg u (Some (subs ! i)) pq now = Inr (s, pr) \<Longrightarrow>
     world_step cfg subs (subs[i := s])"
| step_weather_scan:
    "i < length subs \<Longrightarrow> weather_scan cfg u (Some (subs ! i)) now = Inr s \<Longrightarrow>
     world_step cfg subs (subs[i := s])"
| step_start_refuel:
    "i < length subs \<Longrightarrow> start_refuel cfg u (Some (subs ! i)) fuelers = Inr s \<Longrightarrow>
     world_step cfg subs (subs[i := s])"
| step_detonate:
    "detonate_torp cfg u (Some t) subs now qs = Inr (subs', qs', n) \<Longrightarrow>
     world_step cfg subs subs'"
| step_tick:
    "game_loop_tick cfg clouds elapsed loop_start subs torps fuelers sdraws tdraws =
       (subs', torps', fuelers', evs) \<Longrightarrow>
     world_step cfg subs subs'"

text \<open>The states reachable from the empty table.\<close>

inductive reachable :: "game_cfg \<Rightarrow> SubModel list \<Rightarrow> bool" for cfg where
  reach_empty: "reachable cfg []"
| reach_step: "reachable cfg subs \<Longrightarrow> world_step cfg subs subs' \<Longrightarrow> reachable cfg subs'"

text \<open>The five bounded quantities of a submarine.\<close>

definition res :: "SubModel \<Rightarrow> real \<times> real \<times> int \<times> real \<times> real" where
  "res s = (s_battery s, s_fuel s, s_torpedo_ammo s, s_blow_charge s, s_health s)"


subsection \<open>Concrete data for the worked instances\<close>

text \<open>
  A submarine of user 1 as \<open>register_sub\<close> creates one under \<open>DEFAULT_CFG\<close>, placed at the
  origin at depth 100, heading east, with battery 50.
\<close>

definition sub0 :: SubModel where
  "sub0 =
     \<lparr> s_id = ''sub-a'', s_owner_id = 1, s_x = 0, s_y = 0, s_depth = 100, s_heading = 0,
       s_pitch = 0, s_rudder_angle = Some 0, s_rudder_cmd = Some 0, s_planes = 0,
       s_throttle = 2 / 10, s_target_depth = None, s_target_heading = None, s_speed = 0,
       s_battery = 50, s_fuel = 1000, s_refuel_timer = 0, s_refuel_active = False,
       s_refuel_fueler_id = None, s_is_snorkeling = False, s_blow_active = False,
       s_blow_charge = 1, s_blow_end = 0, s_health = 100, s_passive_dir = 0,
       s_created_at = 0, s_last_report = 0, s_scanner_noise_until = 0,
       s_torpedo_ammo = 4, s_score = 0, s_kills = 0 \<rparr>"

text \<open>Random draws that are all 0.\<close>

definition draws0 :: reg_draws where
  "draws0 = \<lparr> rd_spawn = (\<lambda>i. (0, 0)), rd_depth = 0, rd_heading = 0, rd_battery = 0 \<rparr>"

text \<open>A submarine of user 2, 100 m east of \<open>sub0\<close>, and a fueler that user 2 called.\<close>

definition sub_b :: SubModel where
  "sub_b = sub0\<lparr>s_id := ''sub-b'', s_owner_id := 2, s_x := 100\<rparr>"

definition fueler_b :: FuelerModel where
  "fueler_b =
     \<lparr> f_id = ''fueler-b'', f_owner_id = Some 2, f_x = 1000, f_y = 0, f_depth = 0,
       f_fuel = 500, f_max_fuel = 500, f_spawned_at = 0, f_empty_since = None \<rparr>"

text \<open>A torpedo of user 2, launched by \<open>sub_b\<close>, 70 m east of \<open>sub0\<close> at its depth.\<close>

definition torp_b :: TorpedoModel where
  "torp_b =
     \<lparr> t_id = ''torp-b'', t_owner_id = 2, t_parent_sub = ''sub-b'',
       t_x = 70, t_y = 0, t_depth = 100, t_target_depth = None, t_heading = pi,
       t_target_heading = None, t_speed = 6, t_target_speed = 6, t_created_at = 0,
       t_control_mode = Wire, t_wire_length = 1000, t_passive_sonar_active = True,
       t_passive_sonar_bearing = 0, t_last_sonar_contact = 0,
       t_active_sonar_enabled = False, t_last_active_ping = 0, t_battery = Some 100,
       t_battery_dead = False, t_expired = False, t_check_prox = False,
       t_min_safe_distance = None, t_delete = False \<rparr>"

text \<open>A second submarine of user 1, 100 m east of \<open>sub0\<close>.\<close>

definition sub_mate :: SubModel where
  "sub_mate = sub0\<lparr>s_id := ''sub-c'', s_x := 100\<rparr>"

text \<open>Observer draws that are all 0 (the shortest report interval).\<close>

definition odraws0 :: obs_draws where
  "odraws0 = \<lparr> od_interval = 0, od_jitter_sub = 0, od_jitter_torp = 0 \<rparr>"


section \<open>Verification\<close>

subsection \<open>Snapshots (C10)\<close>

lemma delivered_put_nowait:
  "delivered qs (put_nowait (uq qs u) u ev) u = [] \<or>
   delivered qs (put_nowait (uq qs u) u ev) u = [ev]"
  by (auto simp: delivered_def put_nowait_def uq_def split: option.splits)

lemma snapshot_scoped_filter:
  "snapshot_scoped u subs torps fuelers
     \<lparr> snap_subs = map sub_pub_of (filter (\<lambda>s. s_owner_id s = u) subs),
       snap_torpedoes = map torp_pub_of (filter (\<lambda>t. t_owner_id t = u) torps),
       snap_fuelers = map fueler_pub_of fuelers,
       snap_time = now \<rparr>"
  unfolding snapshot_scoped_def
  by (auto simp: fueler_pub_of_def)

text \<open>
  C10. Every snapshot that \<open>send_snapshot\<close> or \<open>send_snapshot_mem\<close> puts on a user's queue
  lists exactly the publications of that user's own submarines and torpedoes, and one
  entry per fueler in the world, whoever owns it, carrying that fueler's position and fuel.
\<close>

theorem snapshot_own_units_all_fuelers:
  "(\<forall>ev \<in> set (delivered qs (send_snapshot subs torps fuelers now qs u) u).
      \<exists>obj. ev = Snapshot obj \<and> snapshot_scoped u subs torps fuelers obj) \<and>
   (\<forall>ev \<in> set (delivered qs (send_snapshot_mem fuelers now qs u subs torps) u).
      \<exists>obj. ev = Snapshot obj \<and> snapshot_scoped u subs torps fuelers obj)"
proof -
  let ?obj = "\<lparr> snap_subs = map sub_pub_of (filter (\<lambda>s. s_owner_id s = u) subs),
       snap_torpedoes = map torp_pub_of (filter (\<lambda>t. t_owner_id t = u) torps),
       snap_fuelers = map fueler_pub_of fuelers,
       snap_time = now \<rparr>"
  have d: "delivered qs (put_nowait (uq qs u) u (Snapshot ?obj)) u = [] \<or>
           delivered qs (put_nowait (uq qs u) u (Snapshot ?obj)) u = [Snapshot ?obj]"
    by (rule delivered_put_nowait)
  have s: "snapshot_scoped u subs torps fuelers ?obj"
    by (rule snapshot_scoped_filter)
  have a: "send_snapshot subs torps fuelers now qs u = put_nowait (uq qs u) u (Snapshot ?obj)"
    by (simp add: send_snapshot_def Let_def)
  have b: "send_snapshot_mem fuelers now qs u subs torps = put_nowait (uq qs u) u (Snapshot ?obj)"
    by (simp add: send_snapshot_mem_def Let_def)
  from d s show ?thesis
    unfolding a b by auto
qed

text \<open>
  The theorem at work: user 1 connects while user 2 has a submarine and a fueler in the
  world. The snapshot holds user 1's submarine only, and user 2's fueler.
\<close>

theorem snapshot_own_units_all_fuelers_witness:
  "delivered Map.empty (send_snapshot [sub0, sub_b] [] [fueler_b] 5 Map.empty 1) 1 =
     [Snapshot \<lparr> snap_subs = [sub_pub_of sub0], snap_torpedoes = [],
                 snap_fuelers = [fueler_pub_of fueler_b], snap_time = 5 \<rparr>] \<and>
   snapshot_scoped 1 [sub0, sub_b] [] [fueler_b]
     \<lparr> snap_subs = [sub_pub_of sub0], snap_torpedoes = [],
       snap_fuelers = [fueler_pub_of fueler_b], snap_time = 5 \<rparr>"
proof -
  have d: "delivered Map.empty (send_snapshot [sub0, sub_b] [] [fueler_b] 5 Map.empty 1) 1 =
     [Snapshot \<lparr> snap_subs = [sub_pub_of sub0], snap_torpedoes = [],
                 snap_fuelers = [fueler_pub_of fueler_b], snap_time = 5 \<rparr>]"
    by (simp add: send_snapshot_def delivered_def put_nowait_def uq_def Let_def
          sub0_def sub_b_def)
  show ?thesis
    using snapshot_own_units_all_fuelers [of Map.empty "[sub0, sub_b]" "[]" "[fueler_b]" 5 1]
    unfolding d by simp
qed

subsection \<open>Heading conversion (C6)\<close>

lemma py_fmod_unit: "0 \<le> a \<Longrightarrow> a < b \<Longrightarrow> py_fmod a b = a"
proof -
  assume a: "0 \<le> a" "a < b"
  then have "0 \<le> a / b" "a / b < 1" by simp_all
  then have "\<lfloor>a / b\<rfloor> = 0" by linarith
  then show ?thesis by (simp add: py_fmod_def)
qed

lemma py_fmod_shift: "0 < b \<Longrightarrow> py_fmod (a + b) b = py_fmod a b"
proof -
  assume b: "0 < b"
  then have "(a + b) / b = a / b + 1" by (simp add: field_simps)
  then have "\<lfloor>(a + b) / b\<rfloor> = \<lfloor>a / b\<rfloor> + 1" by simp
  then show ?thesis by (simp add: py_fmod_def algebra_simps)
qed

lemma radians_back: "radians d * 180 / pi = d"
  by (simp add: radians_def)

text \<open>
  What the handler's response reads back, for every compass heading in \<open>[0, 360)\<close>: the
  heading mirrored about the east-west axis, \<open>(180 - \<theta>) mod 360\<close>, and nothing at all
  for \<open>\<theta> = 90\<close>, whose server angle is \<open>0.0\<close>.
\<close>

lemma set_sub_heading_reads_back:
  assumes "0 \<le> th" "th < 360"
  shows "set_sub_heading u (Some (s\<lparr>s_owner_id := u\<rparr>)) (Val th) =
           Inr (s\<lparr>s_owner_id := u, s_target_heading := Some (radians (py_fmod (90 - th) 360))\<rparr>,
                \<lparr> hr_heading = s_heading s,
                  hr_target_heading = Some (radians (py_fmod (90 - th) 360)),
                  hr_compass_heading = py_fmod (s_heading s * 180 / pi + 90) 360,
                  hr_compass_target =
                    (if th = 90 then None else Some (py_fmod (180 - th) 360)) \<rparr>)"
proof -
  have z: "(radians (py_fmod (90 - th) 360) = 0) = (th = 90)"
  proof (cases "th \<le> 90")
    case True
    then have "py_fmod (90 - th) 360 = 90 - th"
      using assms by (intro py_fmod_unit) simp_all
    then show ?thesis by (simp add: radians_def)
  next
    case False
    have "py_fmod (90 - th + 360) 360 = 90 - th + 360"
      using assms False by (intro py_fmod_unit) simp_all
    then have "py_fmod (90 - th) 360 = 450 - th"
      using py_fmod_shift [of 360 "90 - th"] by simp
    then show ?thesis using assms False by (simp add: radians_def)
  qed
  have m: "py_fmod (py_fmod (90 - th) 360 + 90) 360 = py_fmod (180 - th) 360"
  proof (cases "th \<le> 90")
    case True
    then have e: "py_fmod (90 - th) 360 = 90 - th"
      using assms by (intro py_fmod_unit) simp_all
    have "90 - th + 90 = 180 - th" by simp
    then show ?thesis unfolding e by simp
  next
    case False
    have "py_fmod (90 - th + 360) 360 = 90 - th + 360"
      using assms False by (intro py_fmod_unit) simp_all
    then have e: "py_fmod (90 - th) 360 = 450 - th"
      using py_fmod_shift [of 360 "90 - th"] by simp
    have "py_fmod (180 - th + 360) 360 = py_fmod (180 - th) 360"
      by (rule py_fmod_shift) simp
    moreover have "450 - th + 90 = 180 - th + 360" by simp
    ultimately show ?thesis unfolding e by simp
  qed
  show ?thesis
    using z m
    by (simp add: set_sub_heading_def owned_sub_def heading_response_def Let_def radians_back)
qed

text \<open>
  The inverse the bundled clients use does return the heading: the round trip through
  \<open>compass_deg_from_rad\<close> is the identity on \<open>[0, 360)\<close>.
\<close>

lemma compass_deg_from_rad_inverse:
  assumes "0 \<le> th" "th < 360"
  shows "compass_deg_from_rad (radians (py_fmod (90 - th) 360)) = th"
proof (cases "th \<le> 90")
  case True
  then have e: "py_fmod (90 - th) 360 = 90 - th"
    using assms by (intro py_fmod_unit) simp_all
  have "py_fmod th 360 = th" using assms by (intro py_fmod_unit) simp_all
  then show ?thesis by (simp add: compass_deg_from_rad_def radians_back e)
next
  case False
  have "py_fmod (90 - th + 360) 360 = 90 - th + 360"
    using assms False by (intro py_fmod_unit) simp_all
  then have e: "py_fmod (90 - th) 360 = 450 - th"
    using py_fmod_shift [of 360 "90 - th"] by simp
  have "py_fmod (th - 360 + 360) 360 = py_fmod (th - 360) 360"
    by (rule py_fmod_shift) simp
  moreover have "py_fmod th 360 = th" using assms by (intro py_fmod_unit) simp_all
  ultimately have "py_fmod (th - 360) 360 = th" by simp
  then show ?thesis by (simp add: compass_deg_from_rad_def radians_back e)
qed

text \<open>
  C6, at the failing input. The claim asks that compass \<open>\<rightarrow>\<close> server \<open>\<rightarrow>\<close> compass return the
  heading. \<open>set_sub_heading\<close> with \<open>heading_deg = 0\<close> (north) stores the server angle
  \<open>\<pi>/2\<close>, as the claim's formula says, and its response converts that angle back to
  compass 180 (south), not 0.
\<close>

theorem set_sub_heading_north_reads_south:
  "set_sub_heading 1 (Some sub0) (Val 0) =
     Inr (sub0\<lparr>s_target_heading := Some (pi / 2)\<rparr>,
          \<lparr> hr_heading = 0, hr_target_heading = Some (pi / 2),
            hr_compass_heading = 90, hr_compass_target = Some 180 \<rparr>)"
proof -
  have a: "py_fmod 90 360 = 90" by (rule py_fmod_unit) simp_all
  have b: "py_fmod 180 360 = 180" by (rule py_fmod_unit) simp_all
  show ?thesis
    by (simp add: set_sub_heading_def owned_sub_def heading_response_def Let_def
          sub0_def radians_def a b)
qed


subsection \<open>Launch, then reload one round (C9)\<close>

text \<open>
  C9. For a submarine within the bounds of the data model (magazine not over-full,
  battery at most 100) that has at least one round and at least
  \<open>reload_battery_cost_per_torp\<close> of battery, with that cost not negative:
  \<open>launch_torpedo\<close> succeeds, takes one round and charges no battery; reloading one
  round right after succeeds, restores the round count and debits exactly
  \<open>reload_battery_cost_per_torp\<close>.
\<close>

theorem launch_then_reload_one:
  assumes "s_owner_id s = u"
    and "1 \<le> s_torpedo_ammo s"
    and "s_torpedo_ammo s \<le> torp_magazine_size (cfg_torpedo cfg)"
    and "torp_reload_battery_cost_per_torp (cfg_torpedo cfg) \<le> s_battery s"
    and "s_battery s \<le> 100"
    and "0 \<le> torp_reload_battery_cost_per_torp (cfg_torpedo cfg)"
  shows "\<exists>s1 t r1 s2 r2.
           launch_torpedo cfg u (Some s) rng now tid = Inr (s1, t, r1) \<and>
           s_torpedo_ammo s1 = s_torpedo_ammo s - 1 \<and>
           s_battery s1 = s_battery s \<and>
           lr_battery_cost r1 = 0 \<and>
           reload_torpedoes cfg u (Some s1) (CountInt 1) = Inr (s2, r2) \<and>
           rr_reloaded r2 = 1 \<and>
           s_torpedo_ammo s2 = s_torpedo_ammo s \<and>
           s_battery s2 = s_battery s - torp_reload_battery_cost_per_torp (cfg_torpedo cfg)"
proof -
  let ?s1 = "s\<lparr>s_torpedo_ammo := s_torpedo_ammo s - 1\<rparr>"
  obtain t r1 where l: "launch_torpedo cfg u (Some s) rng now tid = Inr (?s1, t, r1)"
    and c: "lr_battery_cost r1 = 0"
    using assms(1,2) by (simp add: launch_torpedo_def owned_sub_def Let_def)
  let ?c = "torp_reload_battery_cost_per_torp (cfg_torpedo cfg)"
  let ?s2 = "?s1\<lparr>s_battery := s_battery s - ?c, s_torpedo_ammo := s_torpedo_ammo s\<rparr>"
  have m: "max 0 (torp_magazine_size (cfg_torpedo cfg) - (s_torpedo_ammo s - 1)) \<ge> 1"
    using assms(3) by simp
  have k: "clamp (s_battery s - ?c) 0 100 = s_battery s - ?c"
    using assms(4,5,6) by (simp add: clamp_def)
  obtain r2 where r: "reload_torpedoes cfg u (Some ?s1) (CountInt 1) = Inr (?s2, r2)"
    and n: "rr_reloaded r2 = 1"
    using assms(1,3,4) m k by (simp add: reload_torpedoes_def owned_sub_def Let_def)
  from l c r n show ?thesis by auto
qed

text \<open>The theorem on \<open>sub0\<close> (4 rounds, battery 50) under \<open>DEFAULT_CFG\<close> (cost 10).\<close>

theorem launch_then_reload_one_witness:
  "\<exists>s1 t r1 s2 r2.
     launch_torpedo DEFAULT_CFG 1 (Some sub0) None 7 ''torp-a'' = Inr (s1, t, r1) \<and>
     s_torpedo_ammo s1 = 3 \<and> s_battery s1 = 50 \<and> lr_battery_cost r1 = 0 \<and>
     reload_torpedoes DEFAULT_CFG 1 (Some s1) (CountInt 1) = Inr (s2, r2) \<and>
     rr_reloaded r2 = 1 \<and> s_torpedo_ammo s2 = 4 \<and> s_battery s2 = 40"
  using launch_then_reload_one [of sub0 1 DEFAULT_CFG None 7 "''torp-a''"]
  by (simp add: sub0_def DEFAULT_CFG_def)


subsection \<open>Respawn cooldown (C3)\<close>

text \<open>
  C3 as stated fails: the claim lets \<open>register_sub\<close> answer 400 with
  \<open>cooldown_remaining_s\<close> only when a death timestamp lies within the cooldown. User 1
  owns two submarines (the default cap) and has never lost one; \<open>register_sub\<close> answers
  400 with \<open>cooldown_remaining_s = 0\<close>.
\<close>

theorem register_sub_slot_limit_counterexample:
  "register_sub DEFAULT_CFG 1 [sub0, sub0\<lparr>s_id := ''sub-c''\<rparr>]
     (Some \<lparr> u_id = 1, u_last_death_ts = Some 0, u_prev_death_ts = Some 0 \<rparr>)
     1000 draws0 ''sub-d'' =
     Inl \<lparr> re_error = ''respawn cooldown active or slot limit reached'',
           re_cooldown_remaining_s = 0, re_active_subs = 2, re_available_slots = 2 \<rparr> \<and>
   \<not> cooldown_active 1000 (sub_respawn_cooldown_s (cfg_sub DEFAULT_CFG)) (Some 0)"
  by (simp add: register_sub_def DEFAULT_CFG_def sub0_def active_cooldowns_def rems_def
        cooldown_active_def Let_def)

text \<open>
  C3, amended. \<open>register_sub\<close> answers 400 with \<open>cooldown_remaining_s\<close> exactly when the
  caller owns at least one submarine row, \<open>respawn_cooldown_s\<close> is positive, the caller's
  user row was found, and the number of owned submarines is at least
  \<open>max(0, max_per_user - k)\<close>, \<open>k\<close> being how many of \<open>last_death_ts\<close>, \<open>prev_death_ts\<close> are
  non-zero and less than \<open>respawn_cooldown_s\<close> old (so also at the plain slot limit, with
  \<open>k = 0\<close>). A caller who owns no submarine is never refused.
\<close>

theorem register_sub_refusal:
  "((\<exists>e. register_sub cfg u db_subs urow now_ts draws new_id = Inl e) \<longleftrightarrow>
      (0 < length (filter (\<lambda>s. s_owner_id s = u) db_subs) \<and>
       0 < sub_respawn_cooldown_s (cfg_sub cfg) \<and>
       (\<exists>ur. urow = Some ur \<and>
          int (length (filter (\<lambda>s. s_owner_id s = u) db_subs)) \<ge>
            max 0 (sub_max_per_user (cfg_sub cfg)
                   - ((if cooldown_active now_ts (sub_respawn_cooldown_s (cfg_sub cfg))
                            (u_last_death_ts ur) then 1 else 0)
                      + (if cooldown_active now_ts (sub_respawn_cooldown_s (cfg_sub cfg))
                            (u_prev_death_ts ur) then 1 else 0)))))) \<and>
   (length (filter (\<lambda>s. s_owner_id s = u) db_subs) = 0 \<longrightarrow>
      (\<exists>s. register_sub cfg u db_subs urow now_ts draws new_id = Inr s))"
proof -
  have k: "int (length (active_cooldowns now_ts c ur)) =
             (if cooldown_active now_ts c (u_last_death_ts ur) then 1 else 0)
             + (if cooldown_active now_ts c (u_prev_death_ts ur) then 1 else 0)" for c ur
    by (simp add: active_cooldowns_def)
  have m: "(if a < (0::int) then 0 else a) = max 0 a" for a
    by simp
  show ?thesis
    unfolding register_sub_def Let_def k m
    by (cases urow) (auto split: prod.splits)
qed

text \<open>
  The theorem at work (scenario S2 of the specification): both of user 1's submarines
  died 5 s ago, the cooldown is 7200 s, and \<open>register_sub\<close> succeeds because the user owns
  no submarine.
\<close>

theorem register_sub_refusal_witness:
  "length (filter (\<lambda>s. s_owner_id s = 1) [sub_b]) = 0 \<and>
   cooldown_active 1000 (sub_respawn_cooldown_s (cfg_sub DEFAULT_CFG)) (Some 995) \<and>
   (\<exists>s. register_sub DEFAULT_CFG 1 [sub_b]
           (Some \<lparr> u_id = 1, u_last_death_ts = Some 995, u_prev_death_ts = Some 995 \<rparr>)
           1000 draws0 ''sub-d'' = Inr s)"
  using register_sub_refusal [of DEFAULT_CFG 1 "[sub_b]"
      "Some \<lparr> u_id = 1, u_last_death_ts = Some 995, u_prev_death_ts = Some 995 \<rparr>"
      1000 draws0 "''sub-d''"]
  by (simp add: sub_b_def sub0_def cooldown_active_def DEFAULT_CFG_def)


subsection \<open>Active ping cooldown (C7)\<close>

text \<open>
  C7, at the failing input. User 1 pings with \<open>sub0\<close> (battery 50, default beam and range,
  cost 17.398) at time 1000 and again, with the committed row, at time 1001. The claim
  asks the second request to fail with "ping recharging"; both succeed, and the second
  debits the battery again.
\<close>

theorem ping_twice_within_cooldown:
  "ping_request DEFAULT_CFG 1 (Some sub0)
      \<lparr> pq_beamwidth_deg = None, pq_max_range = None, pq_center_bearing_deg = None \<rparr> 1000 =
     Inr (sub0\<lparr>s_battery := 32602 / 1000\<rparr>,
          \<lparr> pr_battery_cost = 17398 / 1000, pr_base = 5 / 10, pr_angle = 8 / 10,
            pr_range = 16098 / 1000, pr_battery_remaining = 32602 / 1000,
            pr_beam_deg = 20, pr_max_range = 6000 \<rparr>) \<and>
   ping_request DEFAULT_CFG 1 (Some (sub0\<lparr>s_battery := 32602 / 1000\<rparr>))
      \<lparr> pq_beamwidth_deg = None, pq_max_range = None, pq_center_bearing_deg = None \<rparr> 1001 =
     Inr (sub0\<lparr>s_battery := 15204 / 1000\<rparr>,
          \<lparr> pr_battery_cost = 17398 / 1000, pr_base = 5 / 10, pr_angle = 8 / 10,
            pr_range = 16098 / 1000, pr_battery_remaining = 15204 / 1000,
            pr_beam_deg = 20, pr_max_range = 6000 \<rparr>)"
  by (simp add: ping_request_def ping_def owned_sub_def DEFAULT_CFG_def sub0_def clamp_def
        Let_def)

text \<open>
  Even on an object that still carries a \<open>ping_cooldown\<close> in the future, the cooldown is
  checked after the battery: a submarine with battery 3 is told "battery too low", and
  with battery 10 "not enough battery", not "ping recharging".
\<close>

lemma ping_in_cooldown_low_battery:
  "ping DEFAULT_CFG 1 (Some (sub0\<lparr>s_battery := 3\<rparr>)) (Some 1005)
      \<lparr> pq_beamwidth_deg = None, pq_max_range = None, pq_center_bearing_deg = None \<rparr> 1001 =
     Inl (400, ''battery too low'') \<and>
   ping DEFAULT_CFG 1 (Some (sub0\<lparr>s_battery := 10\<rparr>)) (Some 1005)
      \<lparr> pq_beamwidth_deg = None, pq_max_range = None, pq_center_bearing_deg = None \<rparr> 1001 =
     Inl (400, ''not enough battery'')"
  by (simp add: ping_def owned_sub_def DEFAULT_CFG_def sub0_def Let_def)

text \<open>
  With the attribute in place and battery to spare, the handler does answer
  "ping recharging" until the five seconds are over.
\<close>

lemma ping_recharging_on_same_object:
  assumes "s_owner_id s = u" "pow_min_battery (cfg_sonar cfg) \<le> s_battery s"
    and "ping cfg u (Some s) None d t0 = Inr (s1, c, r)" "t0 \<le> t" "t < t0 + 5"
    and "ping cfg u (Some s1) (Some c) d t \<noteq> Inl (400, ''battery too low'')"
    and "ping cfg u (Some s1) (Some c) d t \<noteq> Inl (400, ''not enough battery'')"
  shows "ping cfg u (Some s1) (Some c) d t = Inl (400, ''ping recharging'')"
  using assms
  by (auto simp: ping_def owned_sub_def Let_def split: if_splits)


subsection \<open>Blast damage (C1)\<close>

lemma shell_fields:
  "shell_of a = shell_of b \<Longrightarrow>
     s_x a = s_x b \<and> s_y a = s_y b \<and> s_depth a = s_depth b \<and> s_owner_id a = s_owner_id b \<and>
     s_id a = s_id b \<and> s_battery a = s_battery b \<and> s_fuel a = s_fuel b \<and>
     s_torpedo_ammo a = s_torpedo_ammo b \<and> s_blow_charge a = s_blow_charge b"
proof -
  assume h: "shell_of a = shell_of b"
  have "s_x (shell_of a) = s_x (shell_of b)" "s_y (shell_of a) = s_y (shell_of b)"
    "s_depth (shell_of a) = s_depth (shell_of b)" "s_owner_id (shell_of a) = s_owner_id (shell_of b)"
    "s_id (shell_of a) = s_id (shell_of b)" "s_battery (shell_of a) = s_battery (shell_of b)"
    "s_fuel (shell_of a) = s_fuel (shell_of b)" "s_torpedo_ammo (shell_of a) = s_torpedo_ammo (shell_of b)"
    "s_blow_charge (shell_of a) = s_blow_charge (shell_of b)"
    by (simp_all only: h)
  then show ?thesis by (simp add: shell_of_def)
qed

lemma shell_upd [simp]:
  "shell_of (s\<lparr>s_health := h\<rparr>) = shell_of s"
  "shell_of (s\<lparr>s_kills := k\<rparr>) = shell_of s"
  "shell_of (s\<lparr>s_score := sc\<rparr>) = shell_of s"
  by (simp_all add: shell_of_def)

lemma torp_dist_shell: "shell_of a = shell_of b \<Longrightarrow> torp_dist t a = torp_dist t b"
  using shell_fields [of a b] by (simp add: torp_dist_def)

lemma first_index_bound: "first_index P xs = Some k \<Longrightarrow> k < length xs"
  by (induction xs arbitrary: k) (auto split: if_splits)

lemma explode_at_length: "length (fst (explode_at blast t now st i)) = length (fst st)"
  by (simp add: explode_at_def Let_def split: option.splits)

lemma explode_at_nth:
  assumes "i < length (fst st)" "j < length (fst st)"
  shows "shell_of (fst (explode_at blast t now st i) ! j) = shell_of (fst st ! j) \<and>
         s_health (fst (explode_at blast t now st i) ! j) =
           (if j = i then blast_health blast t (fst st ! i) else s_health (fst st ! j))"
  using assms
  by (auto simp: explode_at_def Let_def blast_health_def torp_dist_def nth_list_update
        dest: first_index_bound split: option.splits)


lemma explode_fold:
  "k \<le> length subs \<Longrightarrow>
     length (fst (foldl (explode_at blast t now) (subs, p) [0..<k])) = length subs \<and>
     (\<forall>j < length subs.
        shell_of (fst (foldl (explode_at blast t now) (subs, p) [0..<k]) ! j) = shell_of (subs ! j) \<and>
        s_health (fst (foldl (explode_at blast t now) (subs, p) [0..<k]) ! j) =
          (if j < k then blast_health blast t (subs ! j) else s_health (subs ! j)))"
proof (induction k)
  case 0
  then show ?case by simp
next
  case (Suc k)
  let ?st = "foldl (explode_at blast t now) (subs, p) [0..<k]"
  from Suc have k: "k < length subs" by simp
  from Suc have len: "length (fst ?st) = length subs"
    and inv: "\<forall>j < length subs. shell_of (fst ?st ! j) = shell_of (subs ! j) \<and>
                s_health (fst ?st ! j) =
                  (if j < k then blast_health blast t (subs ! j) else s_health (subs ! j))"
    by simp_all
  have f: "foldl (explode_at blast t now) (subs, p) [0..<Suc k] = explode_at blast t now ?st k"
    by simp
  have bh: "blast_health blast t (fst ?st ! k) = blast_health blast t (subs ! k)"
    using inv k torp_dist_shell [of "fst ?st ! k" "subs ! k" t]
    by (simp add: blast_health_def)
  show ?case
  proof (intro conjI allI impI)
    show "length (fst (foldl (explode_at blast t now) (subs, p) [0..<Suc k])) = length subs"
      unfolding f by (simp add: explode_at_length len)
  next
    fix j assume j: "j < length subs"
    show "shell_of (fst (foldl (explode_at blast t now) (subs, p) [0..<Suc k]) ! j) = shell_of (subs ! j)"
      unfolding f using explode_at_nth [of k ?st j blast t now] inv j k len by simp
    show "s_health (fst (foldl (explode_at blast t now) (subs, p) [0..<Suc k]) ! j) =
            (if j < Suc k then blast_health blast t (subs ! j) else s_health (subs ! j))"
      unfolding f using explode_at_nth [of k ?st j blast t now] inv j k len bh
      by (auto simp: less_Suc_eq)
  qed
qed

lemma explode_torpedo_in_mem_nth:
  "length (fst (explode_torpedo_in_mem cfg now t subs p)) = length subs \<and>
   (\<forall>j < length subs.
      shell_of (fst (explode_torpedo_in_mem cfg now t subs p) ! j) = shell_of (subs ! j) \<and>
      s_health (fst (explode_torpedo_in_mem cfg now t subs p) ! j) =
        blast_health (torp_blast_radius (cfg_torpedo cfg)) t (subs ! j))"
  using explode_fold [of "length subs" subs "torp_blast_radius (cfg_torpedo cfg)" t now p]
  by (simp add: explode_torpedo_in_mem_def Let_def)

lemma detonate_dist:
  "sqrt (distance tx ty sx sy * distance tx ty sx sy + \<bar>td - sd\<bar> * \<bar>td - sd\<bar>) =
     distance3d tx ty td sx sy sd"
proof -
  have n: "0 \<le> (sx - tx) * (sx - tx) + (sy - ty) * (sy - ty)" by simp
  have "distance tx ty sx sy * distance tx ty sx sy = (sx - tx) * (sx - tx) + (sy - ty) * (sy - ty)"
    unfolding distance_def using n by (simp del: zero_le_mult_iff)
  moreover have "\<bar>td - sd\<bar> * \<bar>td - sd\<bar> = (td - sd) * (td - sd)" by simp
  moreover have "(sx - tx) * (sx - tx) + (sy - ty) * (sy - ty) + (td - sd) * (td - sd) =
                 (tx - sx) * (tx - sx) + (ty - sy) * (ty - sy) + (td - sd) * (td - sd)"
    by (simp add: algebra_simps)
  ultimately show ?thesis by (simp add: distance3d_def Let_def)
qed

lemma detonate_dist_torp:
  "sqrt (distance (t_x t) (t_y t) (s_x s) (s_y s) * distance (t_x t) (t_y t) (s_x s) (s_y s) +
         (t_depth t - s_depth s) * (t_depth t - s_depth s)) = torp_dist t s"
  using detonate_dist [of "t_x t" "t_y t" "s_x s" "s_y s" "t_depth t" "s_depth s"]
  by (simp add: torp_dist_def)

lemma detonate_loop_nth:
  "length (fst (detonate_loop blast t now subs qs n)) = length subs \<and>
   (\<forall>j < length subs.
      shell_of (fst (detonate_loop blast t now subs qs n) ! j) = shell_of (subs ! j) \<and>
      s_health (fst (detonate_loop blast t now subs qs n) ! j) =
        (if torp_dist t (subs ! j) \<le> blast
         then max 0 (s_health (subs ! j) - graduated_damage (torp_dist t (subs ! j)))
         else s_health (subs ! j)))"
proof (induction subs arbitrary: qs n)
  case Nil
  then show ?case by simp
next
  case (Cons s ss)
  let ?qs1 = "send_private qs (s_owner_id s)
                (Explosion \<lparr> ex_time = now, ex_at = (t_x t, t_y t, t_depth t),
                             ex_torpedo_id = t_id t, ex_blast_radius = blast,
                             ex_damage = graduated_damage (torp_dist t s),
                             ex_distance = torp_dist t s \<rparr>)"
  show ?case
  proof (cases "torp_dist t s \<le> blast")
    case True
    then have e: "fst (detonate_loop blast t now (s # ss) qs n) =
        s\<lparr>s_health := max 0 (s_health s - graduated_damage (torp_dist t s))\<rparr>
          # fst (detonate_loop blast t now ss ?qs1 (Suc n))"
      by (simp add: Let_def detonate_dist_torp split: prod.splits)
    show ?thesis
      unfolding e using Cons.IH [of ?qs1 "Suc n"] True
      by (auto simp: nth_Cons split: nat.splits)
  next
    case False
    then have e: "fst (detonate_loop blast t now (s # ss) qs n) =
        s # fst (detonate_loop blast t now ss qs n)"
      by (simp add: Let_def detonate_dist_torp split: prod.splits)
    show ?thesis
      unfolding e using Cons.IH [of qs n] False
      by (auto simp: nth_Cons split: nat.splits)
  qed
qed


lemma sqrt_4900: "sqrt 4900 = 70"
  by (rule real_sqrt_unique) simp_all

lemma sqrt_900: "sqrt 900 = 30"
  by (rule real_sqrt_unique) simp_all

lemma sqrt_144: "sqrt 144 = 12"
  by (rule real_sqrt_unique) simp_all


text \<open>
  C1 as stated fails. The claim puts 75 damage at every distance in \<open>(60, 80]\<close>, but a
  detonation damages only within \<open>blast_radius\<close>, which \<open>DEFAULT_CFG\<close> sets to 60: a
  submarine with health 100 at 70 m from the detonation is untouched on both paths, and
  neither path reports it as affected.
\<close>

theorem blast_tier_75_counterexample:
  "torp_blast_radius (cfg_torpedo DEFAULT_CFG) = 60 \<and>
   torp_dist torp_b sub0 = 70 \<and> s_health sub0 = 100 \<and>
   explode_torpedo_in_mem DEFAULT_CFG 1 torp_b [sub0] [] = ([sub0], []) \<and>
   detonate_torp DEFAULT_CFG 2 (Some torp_b) [sub0] 1 Map.empty = Inr ([sub0], Map.empty, 0)"
proof -
  have d: "distance3d 70 0 100 0 0 100 = 70"
    by (simp add: distance3d_def sqrt_4900)
  have e: "distance 70 0 0 0 = 70"
    by (simp add: distance_def sqrt_4900)
  show ?thesis
    by (simp add: explode_torpedo_in_mem_def explode_at_def detonate_torp_def torp_dist_def
          DEFAULT_CFG_def torp_b_def sub0_def d e sqrt_4900 Let_def)
qed


text \<open>
  C1, amended. A detonation resolved by the tick loop (\<open>explode_torpedo_in_mem\<close>:
  proximity fuze and dead battery) changes the health of a submarine at 3D distance \<open>d\<close>
  only if \<open>d \<le> blast_radius\<close> and its health is above 0; a command detonation
  (\<open>detonate_torp\<close>) only if \<open>d \<le> blast_radius\<close>. The health then becomes
  \<open>max(0, health - damage)\<close> with damage 100 for \<open>d \<le> 60\<close>, 75 for \<open>60 < d \<le> 80\<close>, 50 for
  \<open>80 < d \<le> 100\<close> and 25 beyond 100; otherwise it stays as it was.
\<close>

theorem blast_damage_by_distance:
  assumes "i < length subs"
  shows "s_health (fst (explode_torpedo_in_mem cfg now t subs pending) ! i) =
           (if torp_dist t (subs ! i) \<le> torp_blast_radius (cfg_torpedo cfg) \<and> 0 < s_health (subs ! i)
            then max 0 (s_health (subs ! i)
                        - (if torp_dist t (subs ! i) \<le> 60 then 100
                           else if torp_dist t (subs ! i) \<le> 80 then 75
                           else if torp_dist t (subs ! i) \<le> 100 then 50 else 25))
            else s_health (subs ! i)) \<and>
         (\<exists>subs' qs' n.
            detonate_torp cfg (t_owner_id t) (Some t) subs now qs = Inr (subs', qs', n) \<and>
            length subs' = length subs \<and>
            s_health (subs' ! i) =
              (if torp_dist t (subs ! i) \<le> torp_blast_radius (cfg_torpedo cfg)
               then max 0 (s_health (subs ! i)
                           - (if torp_dist t (subs ! i) \<le> 60 then 100
                              else if torp_dist t (subs ! i) \<le> 80 then 75
                              else if torp_dist t (subs ! i) \<le> 100 then 50 else 25))
               else s_health (subs ! i)))"
proof
  show "s_health (fst (explode_torpedo_in_mem cfg now t subs pending) ! i) =
           (if torp_dist t (subs ! i) \<le> torp_blast_radius (cfg_torpedo cfg) \<and> 0 < s_health (subs ! i)
            then max 0 (s_health (subs ! i)
                        - (if torp_dist t (subs ! i) \<le> 60 then 100
                           else if torp_dist t (subs ! i) \<le> 80 then 75
                           else if torp_dist t (subs ! i) \<le> 100 then 50 else 25))
            else s_health (subs ! i))"
    using explode_torpedo_in_mem_nth [of cfg now t subs pending] assms
    by (simp add: blast_health_def graduated_damage_def)
next
  let ?r = "detonate_loop (torp_blast_radius (cfg_torpedo cfg)) t now subs qs 0"
  have d: "detonate_torp cfg (t_owner_id t) (Some t) subs now qs =
             Inr (fst ?r, fst (snd ?r), snd (snd ?r))"
    by (simp add: detonate_torp_def)
  show "\<exists>subs' qs' n.
            detonate_torp cfg (t_owner_id t) (Some t) subs now qs = Inr (subs', qs', n) \<and>
            length subs' = length subs \<and>
            s_health (subs' ! i) =
              (if torp_dist t (subs ! i) \<le> torp_blast_radius (cfg_torpedo cfg)
               then max 0 (s_health (subs ! i)
                           - (if torp_dist t (subs ! i) \<le> 60 then 100
                              else if torp_dist t (subs ! i) \<le> 80 then 75
                              else if torp_dist t (subs ! i) \<le> 100 then 50 else 25))
               else s_health (subs ! i))"
  proof (intro exI conjI)
    show "detonate_torp cfg (t_owner_id t) (Some t) subs now qs =
            Inr (fst ?r, fst (snd ?r), snd (snd ?r))"
      by (rule d)
    show "length (fst ?r) = length subs"
      using detonate_loop_nth [of "torp_blast_radius (cfg_torpedo cfg)" t now subs qs 0]
      by simp
    show "s_health (fst ?r ! i) =
              (if torp_dist t (subs ! i) \<le> torp_blast_radius (cfg_torpedo cfg)
               then max 0 (s_health (subs ! i)
                           - (if torp_dist t (subs ! i) \<le> 60 then 100
                              else if torp_dist t (subs ! i) \<le> 80 then 75
                              else if torp_dist t (subs ! i) \<le> 100 then 50 else 25))
               else s_health (subs ! i))"
      using detonate_loop_nth [of "torp_blast_radius (cfg_torpedo cfg)" t now subs qs 0] assms
      by (simp add: graduated_damage_def)
  qed
qed


text \<open>
  The theorem at work: a torpedo 30 m from \<open>sub0\<close> under \<open>DEFAULT_CFG\<close> takes its health
  from 100 to 0 on either path.
\<close>

theorem blast_damage_by_distance_witness:
  "(0::nat) < length [sub0] \<and> torp_dist (torp_b\<lparr>t_x := 30\<rparr>) sub0 = 30 \<and>
   s_health (fst (explode_torpedo_in_mem DEFAULT_CFG 1 (torp_b\<lparr>t_x := 30\<rparr>) [sub0] []) ! 0) = 0 \<and>
   (\<exists>subs' qs' n.
      detonate_torp DEFAULT_CFG 2 (Some (torp_b\<lparr>t_x := 30\<rparr>)) [sub0] 1 Map.empty =
        Inr (subs', qs', n) \<and>
      length subs' = 1 \<and> s_health (subs' ! 0) = 0)"
proof -
  have d: "torp_dist (torp_b\<lparr>t_x := 30\<rparr>) sub0 = 30"
    by (simp add: torp_dist_def distance3d_def torp_b_def sub0_def sqrt_900)
  have o: "t_owner_id (torp_b\<lparr>t_x := 30\<rparr>) = 2" by (simp add: torp_b_def)
  have h: "s_health sub0 = 100" by (simp add: sub0_def)
  have b: "torp_blast_radius (cfg_torpedo DEFAULT_CFG) = 60" by (simp add: DEFAULT_CFG_def)
  show ?thesis
    using blast_damage_by_distance [of 0 "[sub0]" DEFAULT_CFG 1 "torp_b\<lparr>t_x := 30\<rparr>" "[]" Map.empty]
    by (simp add: d o h b)
qed


subsection \<open>Minimum safe distance from the parent (C2)\<close>

text \<open>
  The fuze stage of the tick loop does keep to the rule: a torpedo whose battery is not
  dead and whose parent is among the submarines, closer than the minimum safe distance,
  leaves every submarine as it was.
\<close>

lemma fuze_spares_parent:
  assumes "\<not> t_battery_dead t" "t_parent_sub t \<noteq> []"
    and "find (\<lambda>s. s_id s = t_parent_sub t) subs = Some p"
    and "torp_dist t p < (case t_min_safe_distance t of None \<Rightarrow> 150 | Some m \<Rightarrow> m)"
  shows "fst (snd (explosion_step cfg now t (subs, pending))) = subs"
  using assms by (simp add: explosion_step_def torp_dist_def Let_def)

text \<open>
  C2, at the failing input. User 1 launches a torpedo from \<open>sub0\<close> and at once calls
  \<open>/detonate\<close> on it. The torpedo is 12 m from its living parent and its battery is full;
  the claim says no step may lower the parent's health from this torpedo's blast within
  150 m. \<open>detonate_torp\<close> takes the parent's health from 100 to 0.
\<close>

theorem detonate_after_launch_hits_parent:
  "\<exists>s1 t r qs'.
     launch_torpedo DEFAULT_CFG 1 (Some sub0) None 0 ''torp-a'' = Inr (s1, t, r) \<and>
     t_parent_sub t = s_id s1 \<and> \<not> t_battery_dead t \<and> t_battery t = Some 100 \<and>
     torp_dist t s1 = 12 \<and> s_health s1 = 100 \<and>
     detonate_torp DEFAULT_CFG 1 (Some t) [s1] 1 Map.empty =
       Inr ([s1\<lparr>s_health := 0\<rparr>], qs', 1)"
proof -
  have d: "distance 12 0 0 0 = 12"
    by (simp add: distance_def sqrt_144)
  show ?thesis
    by (simp add: launch_torpedo_def owned_sub_def detonate_torp_def torp_dist_def
          distance3d_def graduated_damage_def
          DEFAULT_CFG_def sub0_def d sqrt_144 Let_def)
qed

subsection \<open>Passive contacts per observer (C4)\<close>

lemma first_sub_target_Some:
  "first_sub_target cfg clouds now obs subs = Some (tgt, snr, rng) \<Longrightarrow>
     tgt \<in> set subs \<and> \<not> (s_owner_id tgt = s_owner_id obs \<and> s_id tgt = s_id obs)"
  by (induction subs)
     (auto simp: sub_target_check_def Let_def split: option.splits if_splits)

lemma first_torp_target_Some:
  "first_torp_target cfg clouds obs torps = Some (torp, snr, rng) \<Longrightarrow>
     torp \<in> set torps \<and> t_owner_id torp \<noteq> s_owner_id obs"
  by (induction torps)
     (auto simp: torp_target_check_def Let_def split: option.splits if_splits)

lemma first_torp_observer_target_Some:
  "first_torp_observer_target cfg clouds torp subs = Some (tgt, r) \<Longrightarrow>
     tgt \<in> set subs \<and> s_owner_id tgt \<noteq> t_owner_id torp"
  by (induction subs)
     (auto simp: torp_observer_check_def Let_def split: option.splits if_splits)

lemma torp_target_check_last_report:
  "torp_target_check cfg clouds (obs\<lparr>s_last_report := n\<rparr>) torp =
     torp_target_check cfg clouds obs torp"
  by (simp add: torp_target_check_def Let_def)

lemma first_torp_target_last_report:
  "first_torp_target cfg clouds (obs\<lparr>s_last_report := n\<rparr>) torps =
     first_torp_target cfg clouds obs torps"
  by (induction torps) (simp_all add: torp_target_check_last_report split: option.splits)

lemma check_submarines_cases:
  "(first_sub_target cfg clouds now obs subs = None \<and>
      check_submarines cfg clouds now subs dr obs = (obs, [])) \<or>
   (\<exists>e. first_sub_target cfg clouds now obs subs \<noteq> None \<and>
        check_submarines cfg clouds now subs dr obs = (obs\<lparr>s_last_report := now\<rparr>, [e]) \<and>
        submarine_contact_ev e \<and> \<not> torpedo_contact_ev e \<and>
        contact_from (s_id obs) e \<and> fst e = s_owner_id obs)"
  by (cases "first_sub_target cfg clouds now obs subs")
     (auto simp: check_submarines_def Let_def submarine_contact_ev_def torpedo_contact_ev_def
        contact_from_def)

lemma check_torpedoes_cases:
  "(first_torp_target cfg clouds obs torps = None \<and>
      check_torpedoes cfg clouds now torps dr obs = (obs, [])) \<or>
   (\<exists>e. first_torp_target cfg clouds obs torps \<noteq> None \<and>
        check_torpedoes cfg clouds now torps dr obs = (obs\<lparr>s_last_report := now\<rparr>, [e]) \<and>
        torpedo_contact_ev e \<and> \<not> submarine_contact_ev e \<and>
        contact_from (s_id obs) e \<and> fst e = s_owner_id obs)"
  by (cases "first_torp_target cfg clouds obs torps")
     (auto simp: check_torpedoes_def Let_def submarine_contact_ev_def torpedo_contact_ev_def
        contact_from_def)

lemma observe_quota:
  "observer_quota obs now (fst (observe cfg clouds now subs torps dr obs))
     (snd (observe cfg clouds now subs torps dr obs))"
proof (cases "now - s_last_report obs
           < uniform (fst (pas_report_interval_s (cfg_sonar cfg)))
               (snd (pas_report_interval_s (cfg_sonar cfg))) (od_interval dr)")
  case True
  then show ?thesis by (simp add: observe_def observer_quota_def)
next
  case False
  let ?r1 = "check_submarines cfg clouds now subs dr obs"
  let ?r2 = "check_torpedoes cfg clouds now torps dr (fst ?r1)"
  have o: "observe cfg clouds now subs torps dr obs = (fst ?r2, snd ?r1 @ snd ?r2)"
    using False by (simp add: observe_def Let_def)
  show ?thesis
    unfolding o
    using check_submarines_cases [of cfg clouds now obs subs dr]
      check_torpedoes_cases [of cfg clouds "fst ?r1" torps now dr]
    by (auto simp: observer_quota_def)
qed


lemma observe_fold:
  "k \<le> length subs \<Longrightarrow>
     length (fst (foldl (observe_at cfg clouds now torps draws) (subs, pending) [0..<k])) = length subs \<and>
     (\<forall>j < length subs. k \<le> j \<longrightarrow>
        fst (foldl (observe_at cfg clouds now torps draws) (subs, pending) [0..<k]) ! j = subs ! j) \<and>
     (\<exists>ess. length ess = k \<and>
        snd (foldl (observe_at cfg clouds now torps draws) (subs, pending) [0..<k]) = pending @ concat ess \<and>
        (\<forall>i < k. observer_quota (subs ! i) now
                    (fst (foldl (observe_at cfg clouds now torps draws) (subs, pending) [0..<k]) ! i)
                    (ess ! i)))"
proof (induction k)
  case 0
  then show ?case by simp
next
  case (Suc k)
  let ?st = "foldl (observe_at cfg clouds now torps draws) (subs, pending) [0..<k]"
  let ?r = "observe cfg clouds now (fst ?st) torps (draws k) (subs ! k)"
  from Suc.prems have k: "k < length subs" by simp
  from Suc have len: "length (fst ?st) = length subs"
    and rest: "\<forall>j < length subs. k \<le> j \<longrightarrow> fst ?st ! j = subs ! j"
    by simp_all
  from Suc obtain ess where ess: "length ess = k" "snd ?st = pending @ concat ess"
    "\<forall>i < k. observer_quota (subs ! i) now (fst ?st ! i) (ess ! i)"
    by auto
  have cur: "fst ?st ! k = subs ! k" using rest k by simp
  have f: "foldl (observe_at cfg clouds now torps draws) (subs, pending) [0..<Suc k] =
             ((fst ?st)[k := fst ?r], snd ?st @ snd ?r)"
    by (simp add: observe_at_def Let_def cur)
  have q: "observer_quota (subs ! k) now (fst ?r) (snd ?r)"
    by (rule observe_quota)
  show ?case
  proof (intro conjI)
    show "length (fst (foldl (observe_at cfg clouds now torps draws) (subs, pending) [0..<Suc k])) = length subs"
      unfolding f by (simp add: len)
    show "\<forall>j < length subs. Suc k \<le> j \<longrightarrow>
        fst (foldl (observe_at cfg clouds now torps draws) (subs, pending) [0..<Suc k]) ! j = subs ! j"
      unfolding f using rest by simp
    show "\<exists>ess. length ess = Suc k \<and>
        snd (foldl (observe_at cfg clouds now torps draws) (subs, pending) [0..<Suc k]) = pending @ concat ess \<and>
        (\<forall>i < Suc k. observer_quota (subs ! i) now
                    (fst (foldl (observe_at cfg clouds now torps draws) (subs, pending) [0..<Suc k]) ! i)
                    (ess ! i))"
    proof (intro exI [of _ "ess @ [snd ?r]"] conjI allI impI)
      show "length (ess @ [snd ?r]) = Suc k" using ess(1) by simp
      show "snd (foldl (observe_at cfg clouds now torps draws) (subs, pending) [0..<Suc k]) =
              pending @ concat (ess @ [snd ?r])"
        unfolding f using ess(2) by simp
    next
      fix i assume i: "i < Suc k"
      show "observer_quota (subs ! i) now
                    (fst (foldl (observe_at cfg clouds now torps draws) (subs, pending) [0..<Suc k]) ! i)
                    ((ess @ [snd ?r]) ! i)"
      proof (cases "i = k")
        case True
        then show ?thesis unfolding f using q ess(1) len k by (simp add: nth_append)
      next
        case False
        with i have "i < k" by simp
        then show ?thesis unfolding f using ess(1,3) False by (simp add: nth_append)
      qed
    qed
  qed
qed

lemma sqrt_10000: "sqrt 10000 = 100"
  by (rule real_sqrt_unique) simp_all

lemma passive_stage_example:
  "map contact_brief
     (snd (passive_sub_observers DEFAULT_CFG [] 10 [sub0, sub_b] [torp_b] [] (\<lambda>i. odraws0))) =
     [(1, ''sub-a'', ''submarine''), (1, ''sub-a'', ''torpedo''), (2, ''sub-b'', ''submarine'')] \<and>
   map s_last_report
     (fst (passive_sub_observers DEFAULT_CFG [] 10 [sub0, sub_b] [torp_b] [] (\<lambda>i. odraws0))) =
     [10, 10]"
  by (simp add: passive_sub_observers_def observe_at_def observe_def check_submarines_def
        check_torpedoes_def sub_target_check_def torp_target_check_def weather_loss_def
        distance_def sqrt_10000 sqrt_4900 uniform_def contact_brief_def
        DEFAULT_CFG_def sub0_def sub_b_def torp_b_def odraws0_def Let_def)



text \<open>
  C4 as stated fails. In one pass of the passive stage the observer \<open>sub-a\<close> (user 1), with
  user 2's submarine 100 m and user 2's torpedo 70 m east of it, queues two contact
  events: the submarine loop and the torpedo loop each emit one and \<open>break\<close>.
\<close>

theorem two_contacts_one_observer_counterexample:
  "length (filter (contact_from ''sub-a'')
     (snd (passive_sub_observers DEFAULT_CFG [] 10 [sub0, sub_b] [torp_b] [] (\<lambda>i. odraws0)))) = 2"
  by (simp add: passive_sub_observers_def observe_at_def observe_def check_submarines_def
        check_torpedoes_def sub_target_check_def torp_target_check_def weather_loss_def
        distance_def sqrt_10000 sqrt_4900 uniform_def contact_from_def
        DEFAULT_CFG_def sub0_def sub_b_def torp_b_def odraws0_def Let_def)


text \<open>
  C4, amended. Within one pass of the passive-sonar stage over the submarines
  (\<open>passive_sub_observers\<close>) the queued events split into one batch per observing
  submarine, in order, and each batch keeps to \<open>observer_quota\<close>: at most one contact on
  a submarine and at most one contact on a torpedo, hence at most two events, and a
  non-empty batch leaves the observer's \<open>last_report\<close> at the tick time.
\<close>

theorem passive_contacts_per_observer:
  "\<exists>ess. length ess = length subs \<and>
     snd (passive_sub_observers cfg clouds now subs torps pending draws) = pending @ concat ess \<and>
     length (fst (passive_sub_observers cfg clouds now subs torps pending draws)) = length subs \<and>
     (\<forall>i < length subs.
        observer_quota (subs ! i) now
          (fst (passive_sub_observers cfg clouds now subs torps pending draws) ! i) (ess ! i))"
  using observe_fold [of "length subs" subs cfg clouds now torps draws pending]
  unfolding passive_sub_observers_def by auto


text \<open>The theorem on the instance of the counterexample: the batches are of sizes 2 and 1.\<close>

theorem passive_contacts_per_observer_witness:
  "map contact_brief
     (snd (passive_sub_observers DEFAULT_CFG [] 10 [sub0, sub_b] [torp_b] [] (\<lambda>i. odraws0))) =
     [(1, ''sub-a'', ''submarine''), (1, ''sub-a'', ''torpedo''), (2, ''sub-b'', ''submarine'')] \<and>
   (\<exists>ess. length ess = 2 \<and>
      snd (passive_sub_observers DEFAULT_CFG [] 10 [sub0, sub_b] [torp_b] [] (\<lambda>i. odraws0)) =
        concat ess \<and>
      observer_quota sub0 10
        (fst (passive_sub_observers DEFAULT_CFG [] 10 [sub0, sub_b] [torp_b] [] (\<lambda>i. odraws0)) ! 0)
        (ess ! 0) \<and>
      observer_quota sub_b 10
        (fst (passive_sub_observers DEFAULT_CFG [] 10 [sub0, sub_b] [torp_b] [] (\<lambda>i. odraws0)) ! 1)
        (ess ! 1))"
proof -
  obtain ess where e: "length ess = length [sub0, sub_b]"
    "snd (passive_sub_observers DEFAULT_CFG [] 10 [sub0, sub_b] [torp_b] [] (\<lambda>i. odraws0)) =
       [] @ concat ess"
    "\<forall>i < length [sub0, sub_b].
        observer_quota ([sub0, sub_b] ! i) 10
          (fst (passive_sub_observers DEFAULT_CFG [] 10 [sub0, sub_b] [torp_b] [] (\<lambda>i. odraws0)) ! i)
          (ess ! i)"
    using passive_contacts_per_observer
      [of "[sub0, sub_b]" DEFAULT_CFG "[]" 10 "[torp_b]" "[]" "\<lambda>i. odraws0"]
    by blast
  from e(3) have q0: "observer_quota sub0 10
        (fst (passive_sub_observers DEFAULT_CFG [] 10 [sub0, sub_b] [torp_b] [] (\<lambda>i. odraws0)) ! 0)
        (ess ! 0)"
    by force
  from e(3) have q1: "observer_quota sub_b 10
        (fst (passive_sub_observers DEFAULT_CFG [] 10 [sub0, sub_b] [torp_b] [] (\<lambda>i. odraws0)) ! 1)
        (ess ! 1)"
    by force
  have b: "\<exists>ess. length ess = 2 \<and>
      snd (passive_sub_observers DEFAULT_CFG [] 10 [sub0, sub_b] [torp_b] [] (\<lambda>i. odraws0)) =
        concat ess \<and>
      observer_quota sub0 10
        (fst (passive_sub_observers DEFAULT_CFG [] 10 [sub0, sub_b] [torp_b] [] (\<lambda>i. odraws0)) ! 0)
        (ess ! 0) \<and>
      observer_quota sub_b 10
        (fst (passive_sub_observers DEFAULT_CFG [] 10 [sub0, sub_b] [torp_b] [] (\<lambda>i. odraws0)) ! 1)
        (ess ! 1)"
    using e(1,2) q0 q1 by (intro exI [of _ ess]) simp
  show ?thesis
    by (rule conjI [OF conjunct1 [OF passive_stage_example] b])
qed


subsection \<open>Whom passive sonar reports (C8)\<close>

text \<open>
  C8 as stated fails. The claim says an observer never reports a submarine of its own
  user. \<open>sub-a\<close> and \<open>sub-c\<close> both belong to user 1 and lie 100 m apart; the observer
  \<open>sub-a\<close> finds \<open>sub-c\<close> as its first target and queues a contact on it: the submarine
  loop skips a target only when owner and id both match, that is the observer itself.
\<close>

theorem fleet_mate_contact_counterexample:
  "s_owner_id sub_mate = s_owner_id sub0 \<and> s_id sub_mate \<noteq> s_id sub0 \<and>
   first_sub_target DEFAULT_CFG [] 10 sub0 [sub0, sub_mate] = Some (sub_mate, 73 / 10, 100) \<and>
   map contact_brief (snd (observe DEFAULT_CFG [] 10 [sub0, sub_mate] [] odraws0 sub0)) =
     [(1, ''sub-a'', ''submarine'')]"
  by (simp add: observe_def check_submarines_def
        check_torpedoes_def sub_target_check_def weather_loss_def
        distance_def sqrt_10000 uniform_def contact_brief_def
        DEFAULT_CFG_def sub0_def sub_mate_def odraws0_def Let_def)


text \<open>
  C8, amended. Every event a submarine observer queues is either a contact on a
  submarine other than the observer itself (a submarine of the same user included), or
  a contact on a torpedo of another user; every \<open>torpedo_contact\<close> a torpedo observer
  queues is on a submarine of another user than the torpedo's.
\<close>

theorem passive_contact_targets:
  "(\<forall>e \<in> set (snd (observe cfg clouds now subs torps dr obs)).
      (submarine_contact_ev e \<and>
         (\<exists>tgt snr rng. first_sub_target cfg clouds now obs subs = Some (tgt, snr, rng) \<and>
            tgt \<in> set subs \<and> \<not> (s_owner_id tgt = s_owner_id obs \<and> s_id tgt = s_id obs))) \<or>
      (torpedo_contact_ev e \<and>
         (\<exists>torp snr rng. first_torp_target cfg clouds obs torps = Some (torp, snr, rng) \<and>
            torp \<in> set torps \<and> t_owner_id torp \<noteq> s_owner_id obs))) \<and>
   (\<forall>e \<in> set (snd (torp_observe cfg clouds now subs tdr torp)).
      \<exists>tgt r. first_torp_observer_target cfg clouds torp subs = Some (tgt, r) \<and>
         tgt \<in> set subs \<and> s_owner_id tgt \<noteq> t_owner_id torp)"
proof
  let ?r1 = "check_submarines cfg clouds now subs dr obs"
  let ?r2 = "check_torpedoes cfg clouds now torps dr (fst ?r1)"
  have s: "set (snd (observe cfg clouds now subs torps dr obs)) \<subseteq> set (snd ?r1) \<union> set (snd ?r2)"
    by (simp add: observe_def Let_def)
  have t: "first_torp_target cfg clouds (fst ?r1) torps = first_torp_target cfg clouds obs torps"
    using check_submarines_cases [of cfg clouds now obs subs dr]
    by (auto simp: first_torp_target_last_report)
  have a: "\<forall>e \<in> set (snd ?r1). submarine_contact_ev e \<and>
         (\<exists>tgt snr rng. first_sub_target cfg clouds now obs subs = Some (tgt, snr, rng) \<and>
            tgt \<in> set subs \<and> \<not> (s_owner_id tgt = s_owner_id obs \<and> s_id tgt = s_id obs))"
    using check_submarines_cases [of cfg clouds now obs subs dr]
      first_sub_target_Some [of cfg clouds now obs subs]
    by (cases "first_sub_target cfg clouds now obs subs") auto
  have o: "s_owner_id (fst ?r1) = s_owner_id obs"
    using check_submarines_cases [of cfg clouds now obs subs dr] by auto
  have b: "\<forall>e \<in> set (snd ?r2). torpedo_contact_ev e \<and>
         (\<exists>torp snr rng. first_torp_target cfg clouds obs torps = Some (torp, snr, rng) \<and>
            torp \<in> set torps \<and> t_owner_id torp \<noteq> s_owner_id obs)"
    using check_torpedoes_cases [of cfg clouds "fst ?r1" torps now dr]
      first_torp_target_Some [of cfg clouds obs torps] t
    by (cases "first_torp_target cfg clouds obs torps") auto
  show "\<forall>e \<in> set (snd (observe cfg clouds now subs torps dr obs)).
      (submarine_contact_ev e \<and>
         (\<exists>tgt snr rng. first_sub_target cfg clouds now obs subs = Some (tgt, snr, rng) \<and>
            tgt \<in> set subs \<and> \<not> (s_owner_id tgt = s_owner_id obs \<and> s_id tgt = s_id obs))) \<or>
      (torpedo_contact_ev e \<and>
         (\<exists>torp snr rng. first_torp_target cfg clouds obs torps = Some (torp, snr, rng) \<and>
            torp \<in> set torps \<and> t_owner_id torp \<noteq> s_owner_id obs))"
    using s a b by blast
next
  show "\<forall>e \<in> set (snd (torp_observe cfg clouds now subs tdr torp)).
      \<exists>tgt r. first_torp_observer_target cfg clouds torp subs = Some (tgt, r) \<and>
         tgt \<in> set subs \<and> s_owner_id tgt \<noteq> t_owner_id torp"
    using first_torp_observer_target_Some [of cfg clouds torp subs]
    by (cases "first_torp_observer_target cfg clouds torp subs")
       (auto simp: torp_observe_def Let_def)
qed


text \<open>
  The theorem on \<open>sub-a\<close> observing user 2's submarine and torpedo: both targets are
  found, and both are foreign.
\<close>

theorem passive_contact_targets_witness:
  "\<exists>tgt snr rng torp snr' rng'.
     first_sub_target DEFAULT_CFG [] 10 sub0 [sub0, sub_b] = Some (tgt, snr, rng) \<and>
     tgt \<in> set [sub0, sub_b] \<and> \<not> (s_owner_id tgt = s_owner_id sub0 \<and> s_id tgt = s_id sub0) \<and>
     first_torp_target DEFAULT_CFG [] sub0 [torp_b] = Some (torp, snr', rng') \<and>
     torp \<in> set [torp_b] \<and> t_owner_id torp \<noteq> s_owner_id sub0"
proof -
  have ev: "\<exists>e1 e2. snd (observe DEFAULT_CFG [] 10 [sub0, sub_b] [torp_b] odraws0 sub0) = [e1, e2] \<and>
              \<not> torpedo_contact_ev e1 \<and> \<not> submarine_contact_ev e2"
    by (simp add: observe_def check_submarines_def
        check_torpedoes_def sub_target_check_def torp_target_check_def weather_loss_def
        distance_def sqrt_10000 sqrt_4900 uniform_def torpedo_contact_ev_def submarine_contact_ev_def
        DEFAULT_CFG_def sub0_def sub_b_def torp_b_def odraws0_def Let_def)
  then obtain e1 e2 where e: "snd (observe DEFAULT_CFG [] 10 [sub0, sub_b] [torp_b] odraws0 sub0) = [e1, e2]"
    "\<not> torpedo_contact_ev e1" "\<not> submarine_contact_ev e2" by blast
  from passive_contact_targets [of DEFAULT_CFG "[]" 10 "[sub0, sub_b]" "[torp_b]" odraws0 sub0]
  show ?thesis unfolding e(1) using e(2,3) by auto
qed

end
